theory Spec2Isabelle
  imports Complex_Main
begin

section \<open>Data model (types.ts)\<close>

text \<open>
  JavaScript numbers that carry times, sample values and energies are modelled as
  \<open>real\<close>: the comparisons and the arithmetic of the source are kept, IEEE rounding is
  not. Counters and the score are JavaScript numbers holding integers and are modelled
  as \<open>int\<close>. A \<open>LaneIndex\<close> (0 | 1 | 2 | 3) is a \<open>nat\<close>; an array index is a \<open>nat\<close>.
\<close>

datatype Judgment = PERFECT | GOOD | MISS | NONE

record Note =
  id_note :: string
  time :: real
  lane :: nat
  hit :: bool
  missed :: bool
  visible :: bool

record GameStats =
  score :: int
  combo :: int
  maxCombo :: int
  perfect :: int
  good :: int
  miss :: int

section \<open>Constants (constants.ts)\<close>

text \<open>
  \<open>JUDGMENT_WINDOWS\<close> and \<open>SCORES\<close> are objects keyed by three of the four judgments;
  the key \<open>NONE\<close> is absent in the source and left unspecified here.
\<close>

fun JUDGMENT_WINDOWS :: "Judgment \<Rightarrow> real" where
  "JUDGMENT_WINDOWS PERFECT = 0.08"
| "JUDGMENT_WINDOWS GOOD = 0.15"
| "JUDGMENT_WINDOWS MISS = 0.25"

fun SCORES :: "Judgment \<Rightarrow> int" where
  "SCORES PERFECT = 300"
| "SCORES GOOD = 100"
| "SCORES MISS = 0"

section \<open>Chart generation (services/audioAnalyzer.ts)\<close>

definition SIZE :: nat where
  "SIZE = 2048"

definition HISTORY_SIZE :: nat where
  "HISTORY_SIZE = 43"

definition MULTIPLIER :: real where
  "MULTIPLIER = 1.4"

definition MIN_THRESHOLD :: real where
  "MIN_THRESHOLD = 0.05"

definition MIN_NOTE_GAP :: real where
  "MIN_NOTE_GAP = 0.15"

text \<open>The decimal digits of a beat index, as the template literal \<open>note-${beatIndex}\<close> prints them.\<close>

fun string_of_nat :: "nat \<Rightarrow> string" where
  "string_of_nat n =
     (if n < 10 then [''0123456789'' ! n]
      else string_of_nat (n div 10) @ [''0123456789'' ! (n mod 10)])"

declare string_of_nat.simps [simp del]

text \<open>
  The variables the loop of \<open>analyzeAudio\<close> carries from one chunk to the next.
\<close>

record AnalyzerState =
  energyHistory :: "real list"
  lastNoteTime :: real
  noteList :: "Note list"

text \<open>
  The inner loop: the sum of the squares of the \<open>SIZE\<close> samples from index \<open>i\<close>. The
  outer loop's guard keeps every index \<open>i + j\<close> inside the data.
\<close>

definition chunkSum :: "real list \<Rightarrow> nat \<Rightarrow> real" where
  "chunkSum data i = foldl (\<lambda>sum j. sum + data ! (i + j) * data ! (i + j)) 0 [0..<SIZE]"

text \<open>
  Lane mapping of a confirmed beat. In the last branch the time is above
  \<open>MIN_NOTE_GAP\<close>, so the operand of \<open>%\<close> is not negative and JavaScript's remainder is
  the modulus.
\<close>

definition laneFor :: "nat \<Rightarrow> real \<Rightarrow> nat" where
  "laneFor beatIndex t =
     (let patternType = (beatIndex div 8) mod 4;
          subIndex = beatIndex mod 8
      in if patternType = 0 then subIndex mod 4
         else if patternType = 1 then
           (let base = (if beatIndex mod 16 < 8 then 0 else 2) in base + subIndex mod 2)
         else if patternType = 2 then 3 - subIndex mod 4
         else nat (\<lfloor>t * 100\<rfloor> mod 4))"

text \<open>One iteration of the outer loop, for the chunk that starts at sample \<open>i\<close>.\<close>

definition processChunk :: "real list \<Rightarrow> real \<Rightarrow> nat \<Rightarrow> AnalyzerState \<Rightarrow> AnalyzerState" where
  "processChunk data sampleRate i st =
     (let rms = sqrt (chunkSum data i / real SIZE);
          localAverage =
            (if length (energyHistory st) > 0
             then foldl (\<lambda>a b. a + b) 0 (energyHistory st) / real (length (energyHistory st))
             else 0);
          pushed = energyHistory st @ [rms];
          history = (if length pushed > HISTORY_SIZE then tl pushed else pushed);
          st1 = st\<lparr>energyHistory := history\<rparr>
      in if rms > localAverage * MULTIPLIER \<and> rms > MIN_THRESHOLD then
           (let t = real i / sampleRate
            in if t - lastNoteTime st > MIN_NOTE_GAP then
                 (let beatIndex = length (noteList st)
                  in st1\<lparr>noteList := noteList st @
                            [\<lparr>id_note = ''note-'' @ string_of_nat beatIndex, time = t,
                              lane = laneFor beatIndex t, hit = False, missed = False,
                              visible = True\<rparr>],
                          lastNoteTime := t\<rparr>)
               else st1)
         else st1)"

text \<open>
  The outer loop \<open>for (let i = 0; i < data.length - SIZE; i += SIZE)\<close>. The guard is
  written without the subtraction, which in JavaScript may be negative.
\<close>

function analyzeLoop :: "real list \<Rightarrow> real \<Rightarrow> nat \<Rightarrow> AnalyzerState \<Rightarrow> AnalyzerState" where
  "analyzeLoop data sampleRate i st =
     (if i + SIZE < length data
      then analyzeLoop data sampleRate (i + SIZE) (processChunk data sampleRate i st)
      else st)"
  by pat_completeness auto
termination
  by (relation "measure (\<lambda>(data, sampleRate, i, st). length data - i)") (auto simp: SIZE_def)

declare analyzeLoop.simps [simp del]

definition initialAnalyzerState :: AnalyzerState where
  "initialAnalyzerState = \<lparr>energyHistory = [], lastNoteTime = 0, noteList = []\<rparr>"

text \<open>
  \<open>analyzeAudio\<close> on the decoded left channel \<open>data\<close> and the buffer's sample rate.
  Decoding is the platform's; the sample rate of an \<open>AudioBuffer\<close> is positive.
\<close>

definition analyzeAudio :: "real list \<Rightarrow> real \<Rightarrow> Note list" where
  "analyzeAudio data sampleRate = noteList (analyzeLoop data sampleRate 0 initialAnalyzerState)"

section \<open>Playback and judgment (components/GameCanvas.tsx)\<close>

text \<open>
  The refs and the React state of the component that the game logic reads and writes.
  \<open>audioContextRef\<close> and \<open>sourceNodeRef\<close> record whether the ref holds an object; the
  audio graph, the analyser and the canvas drawing have no part in judgment and are left
  out. A state update \<open>setStats(prev => ...)\<close> is applied where it is issued. The value
  of \<open>AudioContext.currentTime\<close> that a handler reads is an argument of its model.
  \<open>laneEffectsRef\<close> holds the four opacities of the lanes; a lane index is below 4, so
  writing one never extends the array.
\<close>

record AnalyzedTrack =
  notes_track :: "Note list"
  duration :: real

record Engine =
  audioContextRef :: bool
  sourceNodeRef :: bool
  startTimeRef :: real
  pauseTimeRef :: real
  notesRef :: "Note list"
  isPlaying :: bool
  isPaused :: bool
  isFinished :: bool
  stats :: GameStats
  lastJudgment :: "Judgment option"
  laneEffectsRef :: "real list"

definition zeroStats :: GameStats where
  "zeroStats = \<lparr>score = 0, combo = 0, maxCombo = 0, perfect = 0, good = 0, miss = 0\<rparr>"

text \<open>The state at mount: the runtime notes are a deep copy of the track's notes.\<close>

definition initialEngine :: "AnalyzedTrack \<Rightarrow> Engine" where
  "initialEngine track =
     \<lparr>audioContextRef = False, sourceNodeRef = False, startTimeRef = 0, pauseTimeRef = 0,
      notesRef = notes_track track, isPlaying = False, isPaused = False, isFinished = False,
      stats = zeroStats, lastJudgment = None, laneEffectsRef = [0, 0, 0, 0]\<rparr>"

subsection \<open>Audio control\<close>

definition playAudio :: "real \<Rightarrow> real \<Rightarrow> Engine \<Rightarrow> Engine" where
  "playAudio offset ctxTime s =
     s\<lparr>audioContextRef := True, sourceNodeRef := True, startTimeRef := ctxTime - offset,
       isPlaying := True, isPaused := False\<rparr>"

text \<open>The \<open>onended\<close> callback of the source node.\<close>

definition onended :: "AnalyzedTrack \<Rightarrow> real \<Rightarrow> Engine \<Rightarrow> Engine" where
  "onended track ctxTime s =
     (if ctxTime - startTimeRef s \<ge> duration track - 0.5
      then s\<lparr>isFinished := True, isPlaying := False\<rparr>
      else s)"

definition pauseGame :: "real \<Rightarrow> Engine \<Rightarrow> Engine" where
  "pauseGame ctxTime s =
     (if \<not> audioContextRef s \<or> \<not> isPlaying s then s
      else s\<lparr>sourceNodeRef := False, pauseTimeRef := ctxTime - startTimeRef s,
             isPlaying := False, isPaused := True\<rparr>)"

definition resumeGame :: "real \<Rightarrow> Engine \<Rightarrow> Engine" where
  "resumeGame ctxTime s = playAudio (pauseTimeRef s) ctxTime s"

text \<open>
  \<open>restartGame\<close> up to the timer it sets; the timer's callback is \<open>playAudio 0\<close>, half a
  second later.
\<close>

definition restartGame :: "AnalyzedTrack \<Rightarrow> Engine \<Rightarrow> Engine" where
  "restartGame track s =
     s\<lparr>notesRef := notes_track track, stats := zeroStats, lastJudgment := None,
       isFinished := False, pauseTimeRef := 0\<rparr>"

subsection \<open>Input handling\<close>

text \<open>\<open>Array.prototype.findIndex\<close>; the result -1 is \<open>None\<close>.\<close>

fun findIndex :: "('a \<Rightarrow> bool) \<Rightarrow> 'a list \<Rightarrow> nat option" where
  "findIndex P [] = None"
| "findIndex P (x # xs) = (if P x then Some 0 else map_option Suc (findIndex P xs))"

text \<open>The predicate given to \<open>findIndex\<close> in \<open>handleInput\<close>.\<close>

definition isTarget :: "nat \<Rightarrow> real \<Rightarrow> Note \<Rightarrow> bool" where
  "isTarget l currentTime n \<longleftrightarrow>
     lane n = l \<and> \<not> hit n \<and> \<not> missed n \<and> \<bar>time n - currentTime\<bar> \<le> JUDGMENT_WINDOWS MISS"

definition judgmentOf :: "real \<Rightarrow> Judgment" where
  "judgmentOf diff =
     (if diff \<le> JUDGMENT_WINDOWS PERFECT then PERFECT
      else if diff \<le> JUDGMENT_WINDOWS GOOD then GOOD
      else MISS)"

text \<open>The update of the stats on a judged press.\<close>

definition judgedStats :: "Judgment \<Rightarrow> GameStats \<Rightarrow> GameStats" where
  "judgedStats judgment prev =
     (let newCombo = (if judgment = MISS then 0 else combo prev + 1)
      in prev\<lparr>score := score prev + SCORES judgment
                  + (if newCombo > 10 then (newCombo div 10) * 10 else 0),
              combo := newCombo,
              maxCombo := max (maxCombo prev) newCombo,
              perfect := (if judgment = PERFECT then perfect prev + 1 else perfect prev),
              good := (if judgment = GOOD then good prev + 1 else good prev),
              miss := (if judgment = MISS then miss prev + 1 else miss prev)\<rparr>)"

definition handleInput :: "nat \<Rightarrow> real \<Rightarrow> Engine \<Rightarrow> Engine" where
  "handleInput l ctxTime s =
     (if \<not> isPlaying s \<or> isPaused s then s
      else if \<not> audioContextRef s then s
      else
        (let currentTime = ctxTime - startTimeRef s;
             s1 = s\<lparr>laneEffectsRef := (laneEffectsRef s)[l := 1]\<rparr>
         in case findIndex (isTarget l currentTime) (notesRef s) of
              None \<Rightarrow> s1
            | Some targetNoteIndex \<Rightarrow>
                (let note = notesRef s ! targetNoteIndex;
                     diff = \<bar>time note - currentTime\<bar>;
                     judgment = judgmentOf diff
                 in s1\<lparr>notesRef := (notesRef s)[targetNoteIndex := note\<lparr>hit := True\<rparr>],
                        stats := judgedStats judgment (stats s),
                        lastJudgment := Some judgment\<rparr>)))"

subsection \<open>Game loop\<close>

text \<open>
  The part of the \<open>forEach\<close> callback of \<open>render\<close> that writes state: the note, the stats
  and the feedback. What follows it in the callback only draws.
\<close>

definition sweepNote ::
  "real \<Rightarrow> Note \<Rightarrow> GameStats \<times> Judgment option \<Rightarrow> Note \<times> GameStats \<times> Judgment option" where
  "sweepNote currentTime note acc =
     (if hit note then (note, acc)
      else if \<not> missed note \<and> currentTime > time note + JUDGMENT_WINDOWS MISS
      then (note\<lparr>missed := True\<rparr>,
            (fst acc)\<lparr>combo := 0, miss := miss (fst acc) + 1\<rparr>, Some MISS)
      else (note, acc))"

fun forEachNote ::
  "real \<Rightarrow> Note list \<Rightarrow> GameStats \<times> Judgment option \<Rightarrow> Note list \<times> GameStats \<times> Judgment option" where
  "forEachNote currentTime [] acc = ([], acc)"
| "forEachNote currentTime (note # rest) acc =
     (case sweepNote currentTime note acc of
        (note', acc') \<Rightarrow>
          (case forEachNote currentTime rest acc' of
             (rest', acc'') \<Rightarrow> (note' # rest', acc'')))"

text \<open>The miss sweep of one frame at transport time \<open>currentTime\<close>.\<close>

definition tick :: "real \<Rightarrow> Engine \<Rightarrow> Engine" where
  "tick currentTime s =
     (case forEachNote currentTime (notesRef s) (stats s, lastJudgment s) of
        (ns, st, lj) \<Rightarrow> s\<lparr>notesRef := ns, stats := st, lastJudgment := lj\<rparr>)"

text \<open>The transport time as \<open>render\<close> computes it.\<close>

definition elapsed :: "real \<Rightarrow> Engine \<Rightarrow> real" where
  "elapsed ctxTime s =
     (if audioContextRef s
      then (if isPlaying s then ctxTime - startTimeRef s else pauseTimeRef s)
      else 0)"

definition decayLane :: "real \<Rightarrow> real" where
  "decayLane opacity = (if opacity > 0 then max 0 (opacity - 0.08) else opacity)"

text \<open>
  One frame. \<open>canvasReady\<close> says that the canvas and its 2D context exist; without them
  \<open>render\<close> returns at once. The lane loop decays the four hit effects.
\<close>

definition render :: "bool \<Rightarrow> real \<Rightarrow> Engine \<Rightarrow> Engine" where
  "render canvasReady ctxTime s =
     (if \<not> canvasReady then s
      else tick (elapsed ctxTime s) (s\<lparr>laneEffectsRef := map decayLane (laneEffectsRef s)\<rparr>))"

subsection \<open>Events\<close>

text \<open>
  What can happen to a mounted component: the start button, the pause button, the resume
  button, the space key, the restart button and its timer, a lane press, a frame and the
  end of the audio source. The overlays that show or hide the buttons are not modelled:
  every handler may run in every state, so the states reached here include all the states
  the component reaches.
\<close>

datatype Event =
    Start real
  | Pause real
  | Resume real
  | KeySpace real
  | Restart
  | RestartTimer real
  | Press nat real
  | Frame bool real
  | Ended real

fun step :: "AnalyzedTrack \<Rightarrow> Engine \<Rightarrow> Event \<Rightarrow> Engine" where
  "step track s (Start ctxTime) = playAudio 0 ctxTime s"
| "step track s (Pause ctxTime) = pauseGame ctxTime s"
| "step track s (Resume ctxTime) = resumeGame ctxTime s"
| "step track s (KeySpace ctxTime) =
     (if isPlaying s then pauseGame ctxTime s
      else if isPaused s then resumeGame ctxTime s
      else s)"
| "step track s Restart = restartGame track s"
| "step track s (RestartTimer ctxTime) = playAudio 0 ctxTime s"
| "step track s (Press l ctxTime) = handleInput l ctxTime s"
| "step track s (Frame canvasReady ctxTime) = render canvasReady ctxTime s"
| "step track s (Ended ctxTime) = onended track ctxTime s"

definition run :: "AnalyzedTrack \<Rightarrow> Event list \<Rightarrow> Engine \<Rightarrow> Engine" where
  "run track evs s = foldl (step track) s evs"

subsection \<open>Result screen\<close>

text \<open>
  The value of \<open>Math.round((score / (totalNotes * 300)) * 100) || 0\<close>: an integer, or an
  infinity when a non-zero score is divided by zero; the NaN of 0 / 0 is replaced by 0.
  \<open>Math.round\<close> rounds halves up.
\<close>

datatype jsnum = Num int | PosInfinity | NegInfinity

definition accuracy :: "int \<Rightarrow> nat \<Rightarrow> jsnum" where
  "accuracy sc totalNotes =
     (if totalNotes = 0
      then (if sc = 0 then Num 0 else if sc > 0 then PosInfinity else NegInfinity)
      else Num \<lfloor>real_of_int sc / (real totalNotes * 300) * 100 + 1 / 2\<rfloor>)"

fun atLeast_js :: "jsnum \<Rightarrow> int \<Rightarrow> bool" where
  "atLeast_js (Num a) b = (a \<ge> b)"
| "atLeast_js PosInfinity b = True"
| "atLeast_js NegInfinity b = False"

definition grade :: "jsnum \<Rightarrow> string" where
  "grade acc =
     (if atLeast_js acc 95 then ''S''
      else if atLeast_js acc 90 then ''A''
      else if atLeast_js acc 80 then ''B''
      else if atLeast_js acc 70 then ''C''
      else if atLeast_js acc 60 then ''D''
      else ''F'')"

definition resultGrade :: "AnalyzedTrack \<Rightarrow> Engine \<Rightarrow> string" where
  "resultGrade track s = grade (accuracy (score (stats s)) (length (notes_track track)))"

section \<open>Auxiliary definitions for the statements and their examples\<close>

text \<open>
  The invariant of the generator's loop behind the spacing of the notes.
\<close>

definition gapInv :: "AnalyzerState \<Rightarrow> bool" where
  "gapInv st \<longleftrightarrow>
     0 \<le> lastNoteTime st \<and>
     (\<forall>n\<in>set (noteList st). MIN_NOTE_GAP < time n \<and> time n \<le> lastNoteTime st) \<and>
     sorted_wrt (\<lambda>a b. MIN_NOTE_GAP < time b - time a) (noteList st)"

text \<open>
  An example track at 8192 Hz: a silent chunk, a loud one, a silent one, a loud one.
\<close>

definition exampleData :: "real list" where
  "exampleData = replicate 2048 0 @ replicate 2048 1 @ replicate 2048 0 @ replicate 2048 1 @ [0]"

text \<open>
  A track that is loud from its first sample.
\<close>

definition loudStart :: "real list" where
  "loudStart = replicate 4097 1"

definition exampleChart :: "Note list" where
  "exampleChart =
     [\<lparr>id_note = ''note-0'', time = 1 / 4, lane = 0, hit = False, missed = False, visible = True\<rparr>,
      \<lparr>id_note = ''note-1'', time = 3 / 4, lane = 1, hit = False, missed = False, visible = True\<rparr>]"

text \<open>
  The notes a tick resolves, and a sequence of ticks.
\<close>

definition isDue :: "real \<Rightarrow> Note \<Rightarrow> bool" where
  "isDue currentTime n \<longleftrightarrow>
     \<not> hit n \<and> \<not> missed n \<and> currentTime > time n + JUDGMENT_WINDOWS MISS"

definition ticks :: "real list \<Rightarrow> Engine \<Rightarrow> Engine" where
  "ticks nows s = foldl (\<lambda>s' now. tick now s') s nows"

text \<open>
  The track that \<open>handleFileUpload\<close> (App.tsx) builds from the result of
  \<open>analyzeAudio\<close>; the duration of an \<open>AudioBuffer\<close> is its length over its sample rate.
\<close>

definition analyzedTrack :: "real list \<Rightarrow> real \<Rightarrow> AnalyzedTrack" where
  "analyzedTrack data sampleRate =
     \<lparr>notes_track = analyzeAudio data sampleRate, duration = real (length data) / sampleRate\<rparr>"

text \<open>
  Engine states of the examples.
\<close>

definition examplePlaying :: Engine where
  "examplePlaying = playAudio 0 100 (initialEngine (analyzedTrack exampleData 8192))"

definition exampleCombo10 :: Engine where
  "exampleCombo10 = examplePlaying\<lparr>stats := zeroStats\<lparr>combo := 10, maxCombo := 10\<rparr>\<rparr>"

definition exampleMissState :: Engine where
  "exampleMissState =
     examplePlaying\<lparr>notesRef :=
         [\<lparr>id_note = ''note-0'', time = 5, lane = 0, hit = False, missed = False, visible = True\<rparr>],
       stats := zeroStats\<lparr>combo := 3, maxCombo := 3, score := 900, perfect := 3\<rparr>\<rparr>"

text \<open>
  Notes with both flags false, and notes with at most one flag true.
\<close>

definition pristine :: "Note list \<Rightarrow> bool" where
  "pristine ns \<longleftrightarrow> (\<forall>n\<in>set ns. \<not> hit n \<and> \<not> missed n)"

definition exclusive :: "Note list \<Rightarrow> bool" where
  "exclusive ns \<longleftrightarrow> (\<forall>n\<in>set ns. \<not> (hit n \<and> missed n))"

text \<open>
  A second example track at 12800 Hz, where a chunk lasts 0.16 s: 18 chunks whose
  amplitude rises by 1/17 per chunk, from 0 to 1. Every chunk after the first is an onset
  that passes the debounce, so the chart has 17 notes, 0.16 s apart. \<open>rampState k\<close> is the
  state of the loop before chunk \<open>k\<close>.
\<close>

definition rampAmps :: "nat \<Rightarrow> real list" where
  "rampAmps n = map (\<lambda>k. real k / 17) [0..<n]"

definition crowdedData :: "real list" where
  "crowdedData = concat (map (replicate SIZE) (rampAmps 18)) @ [0]"

definition noteAt :: "nat \<Rightarrow> Note" where
  "noteAt b =
     \<lparr>id_note = ''note-'' @ string_of_nat b, time = real (Suc b) * (4 / 25),
      lane = laneFor b (real (Suc b) * (4 / 25)), hit = False, missed = False, visible = True\<rparr>"

definition crowdedChart :: "Note list" where
  "crowdedChart = map noteAt [0..<17]"

definition rampState :: "nat \<Rightarrow> AnalyzerState" where
  "rampState k =
     \<lparr>energyHistory = rampAmps k, lastNoteTime = real (k - 1) * (4 / 25),
      noteList = map noteAt [0..<k - 1]\<rparr>"

text \<open>
  Two plays of that track: a press between the adjacent beats 15 and 16 of lane 3, and
  a play that presses every note at its exact time until the source ends.
\<close>

definition crowdedTrack :: AnalyzedTrack where
  "crowdedTrack = analyzedTrack crowdedData 12800"

definition crowdedBefore :: Engine where
  "crowdedBefore = run crowdedTrack [Start 0, Frame True (27 / 10)] (initialEngine crowdedTrack)"

definition crowdedAfter :: Engine where
  "crowdedAfter = step crowdedTrack crowdedBefore (Press 3 (271 / 100))"

definition perfectPresses :: "Event list" where
  "perfectPresses = map (\<lambda>n. Press (lane n) (time n)) crowdedChart"

definition perfectPlay :: Engine where
  "perfectPlay =
     run crowdedTrack (Start 0 # perfectPresses @ [Ended (29 / 10)]) (initialEngine crowdedTrack)"

text \<open>
  Three seconds of silence at 8192 Hz and a play of them; the events of the example for
  the note flags.
\<close>

definition silentData :: "real list" where
  "silentData = replicate 24576 0"

definition silentPlay :: Engine where
  "silentPlay =
     run (analyzedTrack silentData 8192) [Start 0, Press 0 1, Frame True 2, Ended 3]
       (initialEngine (analyzedTrack silentData 8192))"

definition exampleEvents :: "Event list" where
  "exampleEvents = [Start 100, Press 0 (100 + 1 / 5), Frame True (100 + 11 / 10)]"

section \<open>Properties\<close>

subsection \<open>Chart generation\<close>

lemma foldl_upt_sum:
  "foldl (\<lambda>s j. s + f j) a [0..<n] = a + (\<Sum>j<n. f j)" for a :: real
  by (induction n) simp_all

lemma chunkSum_sum: "chunkSum data i = (\<Sum>j<SIZE. data ! (i + j) * data ! (i + j))"
  by (simp add: chunkSum_def foldl_upt_sum)

lemma chunkSum_const:
  assumes "\<And>j. j < SIZE \<Longrightarrow> data ! (i + j) = c"
  shows "chunkSum data i = real SIZE * (c * c)"
  using assms by (simp add: chunkSum_sum)

lemma chunkSum_silent:
  assumes "i + SIZE < length data" and "\<forall>x\<in>set data. x = 0"
  shows "chunkSum data i = 0"
proof -
  have "data ! (i + j) = 0" if "j < SIZE" for j
    using assms that by simp
  then show ?thesis by (simp add: chunkSum_sum)
qed

lemma gapInv_initial: "gapInv initialAnalyzerState"
  by (simp add: gapInv_def initialAnalyzerState_def)

lemma processChunk_notes:
  "(noteList (processChunk data sampleRate i st) = noteList st
      \<and> lastNoteTime (processChunk data sampleRate i st) = lastNoteTime st)
   \<or> (\<exists>n. noteList (processChunk data sampleRate i st) = noteList st @ [n]
          \<and> lastNoteTime (processChunk data sampleRate i st) = time n
          \<and> MIN_NOTE_GAP < time n - lastNoteTime st)"
  by (simp add: processChunk_def Let_def)

lemma gapInv_processChunk:
  assumes "gapInv st"
  shows "gapInv (processChunk data sampleRate i st)"
proof -
  let ?st' = "processChunk data sampleRate i st"
  from assms have last0: "0 \<le> lastNoteTime st"
    and bound: "\<And>n. n \<in> set (noteList st) \<Longrightarrow> MIN_NOTE_GAP < time n \<and> time n \<le> lastNoteTime st"
    and sorted: "sorted_wrt (\<lambda>a b. MIN_NOTE_GAP < time b - time a) (noteList st)"
    by (simp_all add: gapInv_def)
  have gap0: "0 < MIN_NOTE_GAP" by (simp add: MIN_NOTE_GAP_def)
  from processChunk_notes [of data sampleRate i st] show ?thesis
  proof
    assume "noteList ?st' = noteList st \<and> lastNoteTime ?st' = lastNoteTime st"
    with assms show ?thesis by (simp add: gapInv_def)
  next
    assume "\<exists>n. noteList ?st' = noteList st @ [n] \<and> lastNoteTime ?st' = time n
               \<and> MIN_NOTE_GAP < time n - lastNoteTime st"
    then obtain n where ns: "noteList ?st' = noteList st @ [n]"
      and lt: "lastNoteTime ?st' = time n"
      and far: "MIN_NOTE_GAP < time n - lastNoteTime st"
      by blast
    have "0 \<le> time n" using far last0 gap0 by linarith
    moreover have "MIN_NOTE_GAP < time m \<and> time m \<le> time n" if "m \<in> set (noteList st @ [n])" for m
    proof (cases "m = n")
      case True
      then show ?thesis using far last0 by simp
    next
      case False
      with that have "m \<in> set (noteList st)" by simp
      from bound [OF this] far gap0 show ?thesis by linarith
    qed
    moreover have "MIN_NOTE_GAP < time n - time m" if "m \<in> set (noteList st)" for m
      using bound [OF that] far by linarith
    then have "sorted_wrt (\<lambda>a b. MIN_NOTE_GAP < time b - time a) (noteList st @ [n])"
      using sorted by (simp add: sorted_wrt_append)
    ultimately show ?thesis by (simp add: gapInv_def ns lt)
  qed
qed

lemma gapInv_analyzeLoop:
  "gapInv st \<Longrightarrow> gapInv (analyzeLoop data sampleRate i st)"
proof (induction data sampleRate i st rule: analyzeLoop.induct)
  case (1 data sampleRate i st)
  then show ?case
    by (subst analyzeLoop.simps) (simp add: gapInv_processChunk)
qed

lemma gapInv_analyzeAudio:
  "gapInv (analyzeLoop data sampleRate 0 initialAnalyzerState)"
  by (rule gapInv_analyzeLoop [OF gapInv_initial])

text \<open>
  Claim C6: in the generated chart, every two consecutive notes, whatever their lanes, are
  at least \<open>MIN_NOTE_GAP\<close> = 0.15 s apart, so the note times do not decrease. (The
  debounce test is strict, so the distance is in fact above 0.15 s.)
\<close>

theorem chart_min_gap:
  assumes "0 < sampleRate" and "Suc i < length (analyzeAudio data sampleRate)"
  shows "time (analyzeAudio data sampleRate ! Suc i) - time (analyzeAudio data sampleRate ! i)
           \<ge> MIN_NOTE_GAP
         \<and> MIN_NOTE_GAP = 0.15
         \<and> time (analyzeAudio data sampleRate ! i) \<le> time (analyzeAudio data sampleRate ! Suc i)"
proof -
  let ?ns = "analyzeAudio data sampleRate"
  have "sorted_wrt (\<lambda>a b. MIN_NOTE_GAP < time b - time a) ?ns"
    using gapInv_analyzeAudio [of data sampleRate] by (simp add: gapInv_def analyzeAudio_def)
  then have "MIN_NOTE_GAP < time (?ns ! Suc i) - time (?ns ! i)"
    using assms(2) sorted_wrt_nth_less [of _ ?ns i "Suc i"] by simp
  then show ?thesis by (simp add: MIN_NOTE_GAP_def)
qed

text \<open>
  Claim C10: every generated note, the first one included, has a time strictly above 0.15 s:
  the debounce compares with a last-note time that starts at 0. In particular, while the
  last-note time is still 0, a chunk that starts within the first 0.15 s adds no note, onset
  or not.
\<close>

theorem first_note_after_gap:
  assumes "0 < sampleRate"
  shows "(\<forall>n\<in>set (analyzeAudio data sampleRate). time n > 0.15)
       \<and> (lastNoteTime st = 0 \<and> real i / sampleRate \<le> 0.15 \<longrightarrow>
            noteList (processChunk data sampleRate i st) = noteList st)
       \<and> lastNoteTime initialAnalyzerState = 0"
proof -
  have "\<forall>n\<in>set (analyzeAudio data sampleRate). time n > 0.15"
    using gapInv_analyzeAudio [of data sampleRate]
    by (simp add: gapInv_def analyzeAudio_def MIN_NOTE_GAP_def)
  moreover have "lastNoteTime st = 0 \<and> real i / sampleRate \<le> 0.15 \<longrightarrow>
      noteList (processChunk data sampleRate i st) = noteList st"
    by (simp add: processChunk_def Let_def MIN_NOTE_GAP_def)
  moreover have "lastNoteTime initialAnalyzerState = 0"
    by (simp add: initialAnalyzerState_def)
  ultimately show ?thesis by blast
qed

lemma silent_processChunk:
  assumes "i + SIZE < length data" and "\<forall>x\<in>set data. x = 0"
  shows "noteList (processChunk data sampleRate i st) = noteList st"
  using chunkSum_silent [OF assms]
  by (simp add: processChunk_def Let_def MIN_THRESHOLD_def)

lemma silent_analyzeLoop:
  "\<forall>x\<in>set data. x = 0 \<Longrightarrow> noteList (analyzeLoop data sampleRate i st) = noteList st"
proof (induction data sampleRate i st rule: analyzeLoop.induct)
  case (1 data sampleRate i st)
  then show ?case
    by (subst analyzeLoop.simps) (simp add: silent_processChunk)
qed

lemma silent_chart: "\<forall>x\<in>set data. x = 0 \<Longrightarrow> analyzeAudio data sampleRate = []"
  by (simp add: analyzeAudio_def silent_analyzeLoop initialAnalyzerState_def)

lemma length_exampleData: "length exampleData = 8193"
  by (simp add: exampleData_def)

lemma example_chunk0: "chunkSum exampleData 0 = 0"
  by (rule chunkSum_const [of _ _ 0, simplified]) (simp add: exampleData_def SIZE_def nth_append)

lemma example_chunk1: "chunkSum exampleData 2048 = 2048"
  by (rule chunkSum_const [of _ _ 1, simplified SIZE_def, simplified]) (simp add: exampleData_def SIZE_def nth_append)

lemma example_chunk2: "chunkSum exampleData 4096 = 0"
  by (rule chunkSum_const [of _ _ 0, simplified]) (simp add: exampleData_def SIZE_def nth_append)

lemma example_chunk3: "chunkSum exampleData 6144 = 2048"
  by (rule chunkSum_const [of _ _ 1, simplified SIZE_def, simplified]) (simp add: exampleData_def SIZE_def nth_append)

lemma string_of_nat_0: "string_of_nat 0 = ''0''"
  by (simp add: string_of_nat.simps)

lemma string_of_nat_1: "string_of_nat (Suc 0) = ''1''"
  by (subst string_of_nat.simps) simp

lemma example_step0:
  "processChunk exampleData 8192 0 initialAnalyzerState =
     \<lparr>energyHistory = [0], lastNoteTime = 0, noteList = []\<rparr>"
  by (simp add: processChunk_def Let_def example_chunk0 initialAnalyzerState_def HISTORY_SIZE_def)

lemma example_step1:
  "processChunk exampleData 8192 2048 \<lparr>energyHistory = [0], lastNoteTime = 0, noteList = []\<rparr> =
     \<lparr>energyHistory = [0, 1], lastNoteTime = 1 / 4, noteList = [exampleChart ! 0]\<rparr>"
  by (simp add: processChunk_def Let_def example_chunk1 HISTORY_SIZE_def SIZE_def
      MULTIPLIER_def MIN_THRESHOLD_def MIN_NOTE_GAP_def laneFor_def string_of_nat_0 exampleChart_def)

lemma example_step2:
  "processChunk exampleData 8192 4096
     \<lparr>energyHistory = [0, 1], lastNoteTime = 1 / 4, noteList = [exampleChart ! 0]\<rparr> =
     \<lparr>energyHistory = [0, 1, 0], lastNoteTime = 1 / 4, noteList = [exampleChart ! 0]\<rparr>"
  by (simp add: processChunk_def Let_def example_chunk2 HISTORY_SIZE_def SIZE_def
      MULTIPLIER_def MIN_THRESHOLD_def)

lemma example_step3:
  "processChunk exampleData 8192 6144
     \<lparr>energyHistory = [0, 1, 0], lastNoteTime = 1 / 4, noteList = [exampleChart ! 0]\<rparr> =
     \<lparr>energyHistory = [0, 1, 0, 1], lastNoteTime = 3 / 4, noteList = exampleChart\<rparr>"
  by (simp add: processChunk_def Let_def example_chunk3 HISTORY_SIZE_def SIZE_def
      MULTIPLIER_def MIN_THRESHOLD_def MIN_NOTE_GAP_def laneFor_def string_of_nat_1 exampleChart_def)

lemma example_chart: "analyzeAudio exampleData 8192 = exampleChart"
proof -
  have "analyzeLoop exampleData 8192 6144
          \<lparr>energyHistory = [0, 1, 0], lastNoteTime = 1 / 4, noteList = [exampleChart ! 0]\<rparr>
        = \<lparr>energyHistory = [0, 1, 0, 1], lastNoteTime = 3 / 4, noteList = exampleChart\<rparr>"
    by (subst analyzeLoop.simps, simp add: length_exampleData SIZE_def example_step3,
        subst analyzeLoop.simps, simp add: length_exampleData SIZE_def)
  then have "analyzeLoop exampleData 8192 4096
          \<lparr>energyHistory = [0, 1], lastNoteTime = 1 / 4, noteList = [exampleChart ! 0]\<rparr>
        = \<lparr>energyHistory = [0, 1, 0, 1], lastNoteTime = 3 / 4, noteList = exampleChart\<rparr>"
    by (subst analyzeLoop.simps) (simp add: length_exampleData SIZE_def example_step2)
  then have "analyzeLoop exampleData 8192 2048
          \<lparr>energyHistory = [0], lastNoteTime = 0, noteList = []\<rparr>
        = \<lparr>energyHistory = [0, 1, 0, 1], lastNoteTime = 3 / 4, noteList = exampleChart\<rparr>"
    by (subst analyzeLoop.simps) (simp add: length_exampleData SIZE_def example_step1)
  then have "analyzeLoop exampleData 8192 0 initialAnalyzerState
        = \<lparr>energyHistory = [0, 1, 0, 1], lastNoteTime = 3 / 4, noteList = exampleChart\<rparr>"
    by (subst analyzeLoop.simps) (simp add: length_exampleData SIZE_def example_step0)
  then show ?thesis by (simp add: analyzeAudio_def)
qed

lemma loudStart_rms: "sqrt (chunkSum loudStart 0 / real SIZE) = 1"
proof -
  have "chunkSum loudStart 0 = real SIZE * (1 * 1)"
    by (rule chunkSum_const) (simp add: loudStart_def SIZE_def)
  then show ?thesis by (simp add: SIZE_def)
qed

subsection \<open>Input judgment\<close>

lemma findIndex_Some:
  "findIndex P xs = Some k \<Longrightarrow> k < length xs \<and> P (xs ! k) \<and> (\<forall>j<k. \<not> P (xs ! j))"
proof (induction xs arbitrary: k)
  case Nil
  then show ?case by simp
next
  case (Cons x xs)
  show ?case
  proof (cases "P x")
    case True
    with Cons.prems show ?thesis by simp
  next
    case False
    with Cons.prems obtain k' where k': "findIndex P xs = Some k'" and k: "k = Suc k'"
      by auto
    from Cons.IH [OF k'] False show ?thesis
      by (auto simp: k less_Suc_eq_0_disj)
  qed
qed

lemma findIndex_None: "findIndex P xs = None \<longleftrightarrow> (\<forall>x\<in>set xs. \<not> P x)"
  by (induction xs) auto

lemma handleInput_judged:
  assumes "isPlaying s" and "\<not> isPaused s" and "audioContextRef s"
    and "findIndex (isTarget l (ctxTime - startTimeRef s)) (notesRef s) = Some k"
  shows "handleInput l ctxTime s =
           s\<lparr>laneEffectsRef := (laneEffectsRef s)[l := 1],
             notesRef := (notesRef s)[k := (notesRef s ! k)\<lparr>hit := True\<rparr>],
             stats := judgedStats (judgmentOf \<bar>time (notesRef s ! k) - (ctxTime - startTimeRef s)\<bar>) (stats s),
             lastJudgment := Some (judgmentOf \<bar>time (notesRef s ! k) - (ctxTime - startTimeRef s)\<bar>)\<rparr>"
  using assms by (simp add: handleInput_def Let_def)

lemma handleInput_ignored:
  assumes "findIndex (isTarget l (ctxTime - startTimeRef s)) (notesRef s) = None"
  shows "notesRef (handleInput l ctxTime s) = notesRef s
       \<and> stats (handleInput l ctxTime s) = stats s
       \<and> lastJudgment (handleInput l ctxTime s) = lastJudgment s"
  using assms by (simp add: handleInput_def Let_def)

lemma judgmentOf_tiers:
  "(judgmentOf d = PERFECT \<longleftrightarrow> d \<le> 0.08)
   \<and> (judgmentOf d = GOOD \<longleftrightarrow> 0.08 < d \<and> d \<le> 0.15)
   \<and> (judgmentOf d = MISS \<longleftrightarrow> 0.15 < d)"
  by (auto simp: judgmentOf_def)

text \<open>
  Claim C1: while playing, for a press in lane \<open>l\<close> at transport time \<open>t\<close>, if the note
  selected for judgment has target time \<open>T\<close> and \<open>d = |T - t|\<close>, then the tier is PERFECT
  iff \<open>d \<le> 0.08\<close>, GOOD iff \<open>0.08 < d \<le> 0.15\<close>, and MISS iff \<open>0.15 < d \<le> 0.25\<close>; the tier
  is what the feedback and the stats record. A press with no unresolved note of the lane
  within 0.25 s changes no note, no stats and no feedback.
\<close>

theorem press_judgment_tiers:
  assumes "isPlaying s" and "\<not> isPaused s" and "audioContextRef s"
    and "t = ctxTime - startTimeRef s"
  shows "(\<forall>k. findIndex (isTarget l t) (notesRef s) = Some k \<longrightarrow>
            (let d = \<bar>time (notesRef s ! k) - t\<bar>; s' = handleInput l ctxTime s
             in d \<le> 0.25
                \<and> lastJudgment s' = Some (judgmentOf d)
                \<and> stats s' = judgedStats (judgmentOf d) (stats s)
                \<and> (judgmentOf d = PERFECT \<longleftrightarrow> d \<le> 0.08)
                \<and> (judgmentOf d = GOOD \<longleftrightarrow> 0.08 < d \<and> d \<le> 0.15)
                \<and> (judgmentOf d = MISS \<longleftrightarrow> 0.15 < d \<and> d \<le> 0.25)))
       \<and> ((\<forall>n\<in>set (notesRef s).
              lane n = l \<and> \<not> hit n \<and> \<not> missed n \<longrightarrow> \<bar>time n - t\<bar> > 0.25) \<longrightarrow>
            notesRef (handleInput l ctxTime s) = notesRef s
            \<and> stats (handleInput l ctxTime s) = stats s
            \<and> lastJudgment (handleInput l ctxTime s) = lastJudgment s)"
proof (intro conjI allI impI)
  fix k
  assume found: "findIndex (isTarget l t) (notesRef s) = Some k"
  let ?d = "\<bar>time (notesRef s ! k) - t\<bar>"
  from findIndex_Some [OF found] have "isTarget l t (notesRef s ! k)" by simp
  then have window: "?d \<le> 0.25" by (simp add: isTarget_def)
  have eq: "handleInput l ctxTime s =
      s\<lparr>laneEffectsRef := (laneEffectsRef s)[l := 1],
        notesRef := (notesRef s)[k := (notesRef s ! k)\<lparr>hit := True\<rparr>],
        stats := judgedStats (judgmentOf ?d) (stats s),
        lastJudgment := Some (judgmentOf ?d)\<rparr>"
    using handleInput_judged [OF assms(1-3), of l ctxTime k] found assms(4) by simp
  show "let d = ?d; s' = handleInput l ctxTime s
        in d \<le> 0.25
           \<and> lastJudgment s' = Some (judgmentOf d)
           \<and> stats s' = judgedStats (judgmentOf d) (stats s)
           \<and> (judgmentOf d = PERFECT \<longleftrightarrow> d \<le> 0.08)
           \<and> (judgmentOf d = GOOD \<longleftrightarrow> 0.08 < d \<and> d \<le> 0.15)
           \<and> (judgmentOf d = MISS \<longleftrightarrow> 0.15 < d \<and> d \<le> 0.25)"
    unfolding Let_def using window judgmentOf_tiers [of ?d] by (simp add: eq)
next
  assume none: "\<forall>n\<in>set (notesRef s).
      lane n = l \<and> \<not> hit n \<and> \<not> missed n \<longrightarrow> \<bar>time n - t\<bar> > 0.25"
  then have "findIndex (isTarget l (ctxTime - startTimeRef s)) (notesRef s) = None"
    unfolding findIndex_None using assms(4) by (auto simp: isTarget_def)
  from handleInput_ignored [OF this]
  show "notesRef (handleInput l ctxTime s) = notesRef s"
    and "stats (handleInput l ctxTime s) = stats s"
    and "lastJudgment (handleInput l ctxTime s) = lastJudgment s"
    by simp_all
qed

text \<open>
  Claim C4: on a judged press, a tier other than MISS makes the combo the previous combo
  plus one, \<open>maxCombo\<close> the maximum of its old value and the new combo, and adds to the score
  the base of the tier (300 for PERFECT, 100 for GOOD) plus \<open>floor (newCombo / 10) * 10\<close>
  when the new combo is above 10; the tier MISS makes the combo 0 and leaves the score.
  From combo 10 and score 0, a PERFECT gives combo 11 and score 310.
\<close>

theorem judged_press_stats:
  assumes "isPlaying s" and "\<not> isPaused s" and "audioContextRef s"
    and "findIndex (isTarget l (ctxTime - startTimeRef s)) (notesRef s) = Some k"
    and "tier = judgmentOf \<bar>time (notesRef s ! k) - (ctxTime - startTimeRef s)\<bar>"
    and "s' = handleInput l ctxTime s"
  shows "(tier \<noteq> MISS \<longrightarrow>
            (tier = PERFECT \<or> tier = GOOD)
            \<and> combo (stats s') = combo (stats s) + 1
            \<and> maxCombo (stats s') = max (maxCombo (stats s)) (combo (stats s'))
            \<and> score (stats s') = score (stats s)
                 + (if tier = PERFECT then 300 else 100)
                 + (if combo (stats s') > 10 then (combo (stats s') div 10) * 10 else 0))
       \<and> (tier = MISS \<longrightarrow> combo (stats s') = 0 \<and> score (stats s') = score (stats s))
       \<and> (combo (stats s) = 10 \<and> score (stats s) = 0 \<and> tier = PERFECT \<longrightarrow>
            combo (stats s') = 11 \<and> score (stats s') = 310)"
proof -
  have st: "stats s' = judgedStats tier (stats s)"
    using handleInput_judged [OF assms(1-4)] assms(5,6) by simp
  have "tier = PERFECT \<or> tier = GOOD \<or> tier = MISS"
    unfolding assms(5) by (simp add: judgmentOf_def)
  then show ?thesis
    by (auto simp: st judgedStats_def Let_def)
qed

text \<open>
  Claim C5: if the engine is playing with elapsed time \<open>e\<close> when \<open>pauseGame\<close> runs (at
  context time \<open>t1\<close>), then the elapsed time right after the following \<open>resumeGame\<close> (at any
  context time \<open>t2\<close>) is \<open>e\<close> again: the pause stores \<open>e\<close> in \<open>pauseTimeRef\<close>, the elapsed
  time stays \<open>e\<close> while paused, and the resume sets the anchor to \<open>t2 - e\<close>.
\<close>

theorem pause_resume_continuity:
  assumes "isPlaying s" and "audioContextRef s"
  shows "elapsed t2 (resumeGame t2 (pauseGame t1 s)) = elapsed t1 s
       \<and> elapsed t (pauseGame t1 s) = elapsed t1 s
       \<and> pauseTimeRef (pauseGame t1 s) = elapsed t1 s
       \<and> startTimeRef (resumeGame t2 (pauseGame t1 s)) = t2 - elapsed t1 s
       \<and> isPaused (pauseGame t1 s) \<and> \<not> isPlaying (pauseGame t1 s)
       \<and> isPlaying (resumeGame t2 (pauseGame t1 s))"
  using assms by (simp add: elapsed_def resumeGame_def pauseGame_def playAudio_def)

subsection \<open>The miss sweep\<close>

lemma sweepNote_due:
  "isDue now n \<Longrightarrow>
     sweepNote now n (st, lj) = (n\<lparr>missed := True\<rparr>, st\<lparr>combo := 0, miss := miss st + 1\<rparr>, Some MISS)"
  by (simp add: sweepNote_def isDue_def)

lemma sweepNote_not_due: "\<not> isDue now n \<Longrightarrow> sweepNote now n acc = (n, acc)"
  by (auto simp: sweepNote_def isDue_def)

lemma forEachNote_Cons:
  "forEachNote now (n # ns) acc =
     (fst (sweepNote now n acc) # fst (forEachNote now ns (snd (sweepNote now n acc))),
      snd (forEachNote now ns (snd (sweepNote now n acc))))"
  by (simp split: prod.splits)

lemma tick_alt:
  "tick now s =
     s\<lparr>notesRef := fst (forEachNote now (notesRef s) (stats s, lastJudgment s)),
       stats := fst (snd (forEachNote now (notesRef s) (stats s, lastJudgment s))),
       lastJudgment := snd (snd (forEachNote now (notesRef s) (stats s, lastJudgment s)))\<rparr>"
  by (simp add: tick_def split: prod.splits)

lemma forEachNote_notes:
  "fst (forEachNote now ns acc) = map (\<lambda>n. if isDue now n then n\<lparr>missed := True\<rparr> else n) ns"
proof (induction ns arbitrary: acc)
  case Nil
  then show ?case by simp
next
  case (Cons n ns)
  show ?case
  proof (cases "isDue now n")
    case True
    obtain st lj where acc: "acc = (st, lj)" by (cases acc)
    show ?thesis
      using True by (simp only: forEachNote_Cons acc sweepNote_due Cons.IH) simp
  next
    case False
    then show ?thesis
      by (simp add: forEachNote_Cons sweepNote_not_due Cons.IH del: forEachNote.simps)
  qed
qed

lemma forEachNote_stats:
  "fst (snd (forEachNote now ns (st, lj))) =
     (if filter (isDue now) ns = [] then st
      else st\<lparr>combo := 0, miss := miss st + int (length (filter (isDue now) ns))\<rparr>)"
proof (induction ns arbitrary: st lj)
  case Nil
  then show ?case by simp
next
  case (Cons n ns)
  show ?case
  proof (cases "isDue now n")
    case True
    have "fst (snd (forEachNote now (n # ns) (st, lj)))
        = fst (snd (forEachNote now ns (st\<lparr>combo := 0, miss := miss st + 1\<rparr>, Some MISS)))"
      using True by (simp only: forEachNote_Cons sweepNote_due) simp
    also have "\<dots> = (if filter (isDue now) ns = [] then st\<lparr>combo := 0, miss := miss st + 1\<rparr>
        else st\<lparr>combo := 0, miss := miss st + 1\<rparr>
               \<lparr>combo := 0, miss := miss (st\<lparr>combo := 0, miss := miss st + 1\<rparr>)
                  + int (length (filter (isDue now) ns))\<rparr>)"
      by (rule Cons.IH)
    also have "\<dots> = st\<lparr>combo := 0, miss := miss st + int (length (filter (isDue now) (n # ns)))\<rparr>"
      using True by simp
    finally show ?thesis using True by simp
  next
    case False
    have "fst (snd (forEachNote now (n # ns) (st, lj))) = fst (snd (forEachNote now ns (st, lj)))"
      using False by (simp add: forEachNote_Cons sweepNote_not_due del: forEachNote.simps)
    then show ?thesis using False by (simp add: Cons.IH)
  qed
qed

lemma tick_notes:
  "notesRef (tick now s) = map (\<lambda>n. if isDue now n then n\<lparr>missed := True\<rparr> else n) (notesRef s)"
  by (simp add: tick_alt forEachNote_notes)

lemma tick_stats:
  "stats (tick now s) =
     (if filter (isDue now) (notesRef s) = [] then stats s
      else (stats s)\<lparr>combo := 0,
             miss := miss (stats s) + int (length (filter (isDue now) (notesRef s)))\<rparr>)"
  by (simp only: tick_alt forEachNote_stats) simp

lemma tick_miss: 
  "miss (stats (tick now s)) = miss (stats s) + int (length (filter (isDue now) (notesRef s)))"
  by (simp add: tick_stats)

lemma filter_split_nth:
  assumes "i < length xs"
  shows "length (filter P xs) =
           (if P (xs ! i) then 1 else 0) + length (filter P (take i xs @ drop (Suc i) xs))"
proof -
  have "xs = take i xs @ xs ! i # drop (Suc i) xs"
    using assms by (simp add: id_take_nth_drop)
  then have "length (filter P xs) = length (filter P (take i xs @ xs ! i # drop (Suc i) xs))"
    by simp
  then show ?thesis by simp
qed

lemma tick_length: "length (notesRef (tick now s)) = length (notesRef s)"
  by (simp add: tick_notes)

lemma ticks_length: "length (notesRef (ticks nows s)) = length (notesRef s)"
  unfolding ticks_def by (induction nows arbitrary: s) (simp_all add: tick_length)

lemma tick_keeps_missed:
  assumes "i < length (notesRef s)" and "missed (notesRef s ! i)"
  shows "notesRef (tick now s) ! i = notesRef s ! i"
  using assms by (simp add: tick_notes isDue_def)

lemma ticks_keep_missed:
  "i < length (notesRef s) \<Longrightarrow> missed (notesRef s ! i) \<Longrightarrow>
     notesRef (ticks nows s) ! i = notesRef s ! i"
  unfolding ticks_def
proof (induction nows arbitrary: s)
  case Nil
  then show ?case by simp
next
  case (Cons now nows)
  have "notesRef (tick now s) ! i = notesRef s ! i"
    using Cons.prems by (rule tick_keeps_missed)
  moreover from this Cons.prems have "notesRef (foldl (\<lambda>s' now. tick now s') (tick now s) nows) ! i
      = notesRef (tick now s) ! i"
    by (intro Cons.IH) (simp_all add: tick_length)
  ultimately show ?case by simp
qed

text \<open>
  Claim C2: for a note with \<open>hit\<close> and \<open>missed\<close> both false, a tick at a time \<open>now\<close> with
  \<open>now > time + 0.25\<close> sets its \<open>missed\<close> flag, resets the combo to 0 and counts the note
  as exactly one miss (the counter grows by one for this note and by one for every other
  note due at the same tick). After any further ticks the note is unchanged, and in each
  later tick the counter grows only by the number of other notes that are due, and the
  stats are untouched when no other note is due. This holds for every sequence of later
  tick times, the non-decreasing ones included.
\<close>

theorem tick_miss_once:
  assumes "i < length (notesRef s)"
    and "\<not> hit (notesRef s ! i)" and "\<not> missed (notesRef s ! i)"
    and "now > time (notesRef s ! i) + 0.25"
    and "s' = tick now s"
  shows "missed (notesRef s' ! i) \<and> \<not> hit (notesRef s' ! i)
       \<and> combo (stats s') = 0
       \<and> miss (stats s') = miss (stats s) + 1
           + int (length (filter (isDue now) (take i (notesRef s) @ drop (Suc i) (notesRef s))))
       \<and> (\<forall>nows t. let s'' = ticks nows s' in
            notesRef s'' ! i = notesRef s' ! i
            \<and> miss (stats (tick t s'')) = miss (stats s'')
                + int (length (filter (isDue t) (take i (notesRef s'') @ drop (Suc i) (notesRef s''))))
            \<and> (filter (isDue t) (take i (notesRef s'') @ drop (Suc i) (notesRef s'')) = [] \<longrightarrow>
                 stats (tick t s'') = stats s''))"
proof -
  have due: "isDue now (notesRef s ! i)"
    using assms(2-4) by (simp add: isDue_def)
  then have nonempty: "filter (isDue now) (notesRef s) \<noteq> []"
    using assms(1) by (auto simp: filter_empty_conv)
  have note': "notesRef s' ! i = (notesRef s ! i)\<lparr>missed := True\<rparr>"
    using assms(1) due by (simp add: assms(5) tick_notes)
  have len': "i < length (notesRef s')"
    using assms(1) by (simp add: assms(5) tick_length)
  have first: "missed (notesRef s' ! i) \<and> \<not> hit (notesRef s' ! i)"
    using assms(2) by (simp add: note')
  have combo0: "combo (stats s') = 0"
    using nonempty by (simp add: assms(5) tick_stats)
  have miss1: "miss (stats s') = miss (stats s) + 1
      + int (length (filter (isDue now) (take i (notesRef s) @ drop (Suc i) (notesRef s))))"
    using filter_split_nth [OF assms(1), of "isDue now"] due
    by (simp add: assms(5) tick_miss)
  have later: "notesRef (ticks nows s') ! i = notesRef s' ! i
      \<and> miss (stats (tick t (ticks nows s'))) = miss (stats (ticks nows s'))
          + int (length (filter (isDue t)
              (take i (notesRef (ticks nows s')) @ drop (Suc i) (notesRef (ticks nows s')))))
      \<and> (filter (isDue t)
            (take i (notesRef (ticks nows s')) @ drop (Suc i) (notesRef (ticks nows s'))) = [] \<longrightarrow>
          stats (tick t (ticks nows s')) = stats (ticks nows s'))" for nows t
  proof -
    let ?s = "ticks nows s'"
    have same: "notesRef ?s ! i = notesRef s' ! i"
      using len' first by (simp add: ticks_keep_missed)
    have len: "i < length (notesRef ?s)"
      using len' by (simp add: ticks_length)
    have notdue: "\<not> isDue t (notesRef ?s ! i)"
      using first by (simp add: same isDue_def)
    have count: "length (filter (isDue t) (notesRef ?s))
        = length (filter (isDue t) (take i (notesRef ?s) @ drop (Suc i) (notesRef ?s)))"
      using filter_split_nth [OF len, of "isDue t"] notdue by simp
    have "miss (stats (tick t ?s)) = miss (stats ?s)
        + int (length (filter (isDue t) (take i (notesRef ?s) @ drop (Suc i) (notesRef ?s))))"
      using count by (simp add: tick_miss)
    moreover have "stats (tick t ?s) = stats ?s"
      if "filter (isDue t) (take i (notesRef ?s) @ drop (Suc i) (notesRef ?s)) = []"
    proof -
      from that count have "length (filter (isDue t) (notesRef ?s)) = 0" by simp
      then show ?thesis by (simp add: tick_stats)
    qed
    ultimately show ?thesis using same by blast
  qed
  show ?thesis
    unfolding Let_def using first combo0 miss1 later by blast
qed

subsection \<open>Examples\<close>

lemma examplePlaying_eq:
  "examplePlaying =
     \<lparr>audioContextRef = True, sourceNodeRef = True, startTimeRef = 100, pauseTimeRef = 0,
      notesRef = exampleChart, isPlaying = True, isPaused = False, isFinished = False,
      stats = zeroStats, lastJudgment = None, laneEffectsRef = [0, 0, 0, 0]\<rparr>"
  by (simp add: examplePlaying_def playAudio_def initialEngine_def analyzedTrack_def example_chart)

theorem press_judgment_tiers_witness:
  "isPlaying examplePlaying \<and> \<not> isPaused examplePlaying \<and> audioContextRef examplePlaying
   \<and> findIndex (isTarget 0 (1 / 5)) (notesRef examplePlaying) = Some 0
   \<and> lastJudgment (handleInput 0 (100 + 1 / 5) examplePlaying) = Some PERFECT
   \<and> perfect (stats (handleInput 0 (100 + 1 / 5) examplePlaying)) = 1
   \<and> stats (handleInput 3 (100 + 1 / 5) examplePlaying) = stats examplePlaying
   \<and> notesRef (handleInput 3 (100 + 1 / 5) examplePlaying) = notesRef examplePlaying"
proof -
  have h1: "isPlaying examplePlaying" and h2: "\<not> isPaused examplePlaying"
    and h3: "audioContextRef examplePlaying"
    and h4: "1 / 5 = (100 + 1 / 5) - startTimeRef examplePlaying"
    by (simp_all add: examplePlaying_eq)
  have found: "findIndex (isTarget 0 (1 / 5)) (notesRef examplePlaying) = Some 0"
    by (simp add: examplePlaying_eq exampleChart_def isTarget_def)
  have d: "\<bar>time (notesRef examplePlaying ! 0) - 1 / 5\<bar> = 1 / 20"
    by (simp add: examplePlaying_eq exampleChart_def)
  have tier: "judgmentOf (1 / 20) = PERFECT"
    by (simp add: judgmentOf_def)
  have empty3: "\<forall>n\<in>set (notesRef examplePlaying).
      lane n = 3 \<and> \<not> hit n \<and> \<not> missed n \<longrightarrow> \<bar>time n - 1 / 5\<bar> > 0.25"
    by (simp add: examplePlaying_eq exampleChart_def)
  from press_judgment_tiers [OF h1 h2 h3 h4, of 0] found d tier
  have "lastJudgment (handleInput 0 (100 + 1 / 5) examplePlaying) = Some PERFECT
      \<and> perfect (stats (handleInput 0 (100 + 1 / 5) examplePlaying)) = 1"
    by (simp add: Let_def judgedStats_def examplePlaying_eq zeroStats_def)
  moreover from press_judgment_tiers [OF h1 h2 h3 h4, of 3] empty3
  have "stats (handleInput 3 (100 + 1 / 5) examplePlaying) = stats examplePlaying
      \<and> notesRef (handleInput 3 (100 + 1 / 5) examplePlaying) = notesRef examplePlaying"
    by blast
  ultimately show ?thesis using h1 h2 h3 found by blast
qed

theorem judged_press_stats_witness:
  "isPlaying exampleCombo10 \<and> \<not> isPaused exampleCombo10 \<and> audioContextRef exampleCombo10
   \<and> findIndex (isTarget 0 ((100 + 1 / 5) - startTimeRef exampleCombo10)) (notesRef exampleCombo10)
       = Some 0
   \<and> judgmentOf \<bar>time (notesRef exampleCombo10 ! 0) - ((100 + 1 / 5) - startTimeRef exampleCombo10)\<bar>
       = PERFECT
   \<and> combo (stats exampleCombo10) = 10 \<and> score (stats exampleCombo10) = 0
   \<and> combo (stats (handleInput 0 (100 + 1 / 5) exampleCombo10)) = 11
   \<and> score (stats (handleInput 0 (100 + 1 / 5) exampleCombo10)) = 310
   \<and> maxCombo (stats (handleInput 0 (100 + 1 / 5) exampleCombo10)) = 11"
proof -
  have eq: "exampleCombo10 =
     \<lparr>audioContextRef = True, sourceNodeRef = True, startTimeRef = 100, pauseTimeRef = 0,
      notesRef = exampleChart, isPlaying = True, isPaused = False, isFinished = False,
      stats = zeroStats\<lparr>combo := 10, maxCombo := 10\<rparr>, lastJudgment = None,
      laneEffectsRef = [0, 0, 0, 0]\<rparr>"
    by (simp add: exampleCombo10_def examplePlaying_eq)
  have h1: "isPlaying exampleCombo10" and h2: "\<not> isPaused exampleCombo10"
    and h3: "audioContextRef exampleCombo10"
    by (simp_all add: eq)
  have h4: "findIndex (isTarget 0 ((100 + 1 / 5) - startTimeRef exampleCombo10))
      (notesRef exampleCombo10) = Some 0"
    by (simp add: eq exampleChart_def isTarget_def)
  have h5: "PERFECT = judgmentOf
      \<bar>time (notesRef exampleCombo10 ! 0) - ((100 + 1 / 5) - startTimeRef exampleCombo10)\<bar>"
    by (simp add: eq exampleChart_def judgmentOf_def)
  have c: "combo (stats exampleCombo10) = 10" and sc: "score (stats exampleCombo10) = 0"
    and mc: "maxCombo (stats exampleCombo10) = 10"
    by (simp_all add: eq zeroStats_def)
  from judged_press_stats [OF h1 h2 h3 h4 h5 refl] c sc mc
  have "combo (stats (handleInput 0 (100 + 1 / 5) exampleCombo10)) = 11
      \<and> score (stats (handleInput 0 (100 + 1 / 5) exampleCombo10)) = 310
      \<and> maxCombo (stats (handleInput 0 (100 + 1 / 5) exampleCombo10)) = 11"
    by simp
  then show ?thesis using h1 h2 h3 h4 h5 c sc by simp
qed

theorem pause_resume_continuity_witness:
  "isPlaying examplePlaying \<and> audioContextRef examplePlaying
   \<and> elapsed (1123 / 10) examplePlaying = 123 / 10
   \<and> elapsed (1173 / 10) (resumeGame (1173 / 10) (pauseGame (1123 / 10) examplePlaying)) = 123 / 10
   \<and> elapsed (1150 / 10) (pauseGame (1123 / 10) examplePlaying) = 123 / 10"
proof -
  have h1: "isPlaying examplePlaying" and h2: "audioContextRef examplePlaying"
    by (simp_all add: examplePlaying_eq)
  have e: "elapsed (1123 / 10) examplePlaying = 123 / 10"
    by (simp add: elapsed_def examplePlaying_eq)
  from pause_resume_continuity [OF h1 h2, of "1173 / 10" "1123 / 10" "1150 / 10"] e
  show ?thesis using h1 h2 by simp
qed

theorem chart_min_gap_witness:
  "(0::real) < 8192 \<and> Suc 0 < length (analyzeAudio exampleData 8192)
   \<and> time (analyzeAudio exampleData 8192 ! Suc 0) - time (analyzeAudio exampleData 8192 ! 0)
       \<ge> MIN_NOTE_GAP
   \<and> time (analyzeAudio exampleData 8192 ! 0) = 1 / 4
   \<and> time (analyzeAudio exampleData 8192 ! Suc 0) = 3 / 4"
proof -
  have h1: "(0::real) < 8192" by simp
  have h2: "Suc 0 < length (analyzeAudio exampleData 8192)"
    by (simp add: example_chart exampleChart_def)
  from chart_min_gap [OF h1 h2] show ?thesis
    using h2 by (simp add: example_chart exampleChart_def)
qed

theorem first_note_after_gap_witness:
  "(0::real) < 8192 \<and> analyzeAudio exampleData 8192 \<noteq> []
   \<and> time (hd (analyzeAudio exampleData 8192)) > 0.15
   \<and> (0::real) < 44100 \<and> real 0 / 44100 \<le> (0.15::real)
   \<and> sqrt (chunkSum loudStart 0 / real SIZE) > 0 * MULTIPLIER
   \<and> sqrt (chunkSum loudStart 0 / real SIZE) > MIN_THRESHOLD
   \<and> noteList (processChunk loudStart 44100 0 initialAnalyzerState) = []"
proof -
  have h1: "(0::real) < 8192" by simp
  have h2: "hd (analyzeAudio exampleData 8192) \<in> set (analyzeAudio exampleData 8192)"
    by (simp add: example_chart exampleChart_def)
  from first_note_after_gap [OF h1, of exampleData] h2
  have a: "time (hd (analyzeAudio exampleData 8192)) > 0.15"
    by blast
  have h3: "(0::real) < 44100" by simp
  from first_note_after_gap [OF h3, of loudStart initialAnalyzerState 0]
  have "noteList (processChunk loudStart 44100 0 initialAnalyzerState)
      = noteList initialAnalyzerState"
    by simp
  then have b: "noteList (processChunk loudStart 44100 0 initialAnalyzerState) = []"
    by (simp add: initialAnalyzerState_def)
  have c: "sqrt (chunkSum loudStart 0 / real SIZE) > 0 * MULTIPLIER
      \<and> sqrt (chunkSum loudStart 0 / real SIZE) > MIN_THRESHOLD"
    by (simp add: loudStart_rms MIN_THRESHOLD_def)
  from a b c show ?thesis
    by (simp add: example_chart exampleChart_def)
qed

theorem tick_miss_once_witness:
  "0 < length (notesRef exampleMissState)
   \<and> \<not> hit (notesRef exampleMissState ! 0) \<and> \<not> missed (notesRef exampleMissState ! 0)
   \<and> (5.26::real) > time (notesRef exampleMissState ! 0) + 0.25
   \<and> combo (stats exampleMissState) = 3 \<and> miss (stats exampleMissState) = 0
   \<and> missed (notesRef (tick 5.26 exampleMissState) ! 0)
   \<and> combo (stats (tick 5.26 exampleMissState)) = 0
   \<and> miss (stats (tick 5.26 exampleMissState)) = 1
   \<and> miss (stats (tick 5.3 (ticks [5.27, 5.28] (tick 5.26 exampleMissState)))) = 1"
proof -
  have n: "notesRef exampleMissState =
      [\<lparr>id_note = ''note-0'', time = 5, lane = 0, hit = False, missed = False, visible = True\<rparr>]"
    and st: "stats exampleMissState = zeroStats\<lparr>combo := 3, maxCombo := 3, score := 900, perfect := 3\<rparr>"
    by (simp_all add: exampleMissState_def)
  have h1: "0 < length (notesRef exampleMissState)"
    and h2: "\<not> hit (notesRef exampleMissState ! 0)"
    and h3: "\<not> missed (notesRef exampleMissState ! 0)"
    and h4: "(5.26::real) > time (notesRef exampleMissState ! 0) + 0.25"
    by (simp_all add: n)
  have c: "combo (stats exampleMissState) = 3" and m: "miss (stats exampleMissState) = 0"
    by (simp_all add: st zeroStats_def)
  note main = tick_miss_once [OF h1 h2 h3 h4 refl]
  from main have a: "missed (notesRef (tick 5.26 exampleMissState) ! 0)"
    and b: "combo (stats (tick 5.26 exampleMissState)) = 0"
    by simp_all
  from main have "miss (stats (tick 5.26 exampleMissState)) = miss (stats exampleMissState) + 1
      + int (length (filter (isDue 5.26) (take 0 (notesRef exampleMissState) @ drop (Suc 0) (notesRef exampleMissState))))"
    by blast
  then have c1: "miss (stats (tick 5.26 exampleMissState)) = 1"
    by (simp add: n m)
  let ?s = "ticks [5.27, 5.28] (tick 5.26 exampleMissState)"
  have len: "length (notesRef ?s) = 1"
    by (simp add: ticks_length tick_length n)
  from main have
    "filter (isDue 5.3) (take 0 (notesRef ?s) @ drop (Suc 0) (notesRef ?s)) = [] \<longrightarrow>
       stats (tick 5.3 ?s) = stats ?s"
    unfolding Let_def by blast
  then have s1: "stats (tick 5.3 ?s) = stats ?s"
    using len by simp
  from main have
    "filter (isDue 5.28) (take 0 (notesRef (ticks [5.27] (tick 5.26 exampleMissState)))
        @ drop (Suc 0) (notesRef (ticks [5.27] (tick 5.26 exampleMissState)))) = [] \<longrightarrow>
       stats (tick 5.28 (ticks [5.27] (tick 5.26 exampleMissState)))
         = stats (ticks [5.27] (tick 5.26 exampleMissState))"
    unfolding Let_def by blast
  then have s2: "stats ?s = stats (ticks [5.27] (tick 5.26 exampleMissState))"
    by (simp add: ticks_def tick_length n)
  from main have
    "filter (isDue 5.27) (take 0 (notesRef (ticks [] (tick 5.26 exampleMissState)))
        @ drop (Suc 0) (notesRef (ticks [] (tick 5.26 exampleMissState)))) = [] \<longrightarrow>
       stats (tick 5.27 (ticks [] (tick 5.26 exampleMissState)))
         = stats (ticks [] (tick 5.26 exampleMissState))"
    unfolding Let_def by blast
  then have s3: "stats (ticks [5.27] (tick 5.26 exampleMissState)) = stats (tick 5.26 exampleMissState)"
    by (simp add: ticks_def tick_length n)
  show ?thesis
    using h1 h2 h3 h4 c m a b c1 s1 s2 s3 by simp
qed

subsection \<open>Note flags over runs of the engine\<close>

lemma pristine_processChunk:
  "pristine (noteList st) \<Longrightarrow> pristine (noteList (processChunk data sampleRate i st))"
  by (simp add: processChunk_def Let_def pristine_def)

lemma pristine_analyzeLoop:
  "pristine (noteList st) \<Longrightarrow> pristine (noteList (analyzeLoop data sampleRate i st))"
proof (induction data sampleRate i st rule: analyzeLoop.induct)
  case (1 data sampleRate i st)
  then show ?case
    by (subst analyzeLoop.simps) (simp add: pristine_processChunk)
qed

lemma pristine_chart: "pristine (analyzeAudio data sampleRate)"
  unfolding analyzeAudio_def
  by (rule pristine_analyzeLoop) (simp add: pristine_def initialAnalyzerState_def)

lemma pristine_exclusive: "pristine ns \<Longrightarrow> exclusive ns"
  by (simp add: pristine_def exclusive_def)

lemma handleInput_notes:
  "notesRef (handleInput l ctxTime s) = notesRef s
   \<or> (\<exists>k<length (notesRef s). \<not> hit (notesRef s ! k) \<and> \<not> missed (notesRef s ! k)
        \<and> notesRef (handleInput l ctxTime s) = (notesRef s)[k := (notesRef s ! k)\<lparr>hit := True\<rparr>])"
proof (cases "findIndex (isTarget l (ctxTime - startTimeRef s)) (notesRef s)")
  case None
  then show ?thesis by (simp add: handleInput_def Let_def)
next
  case (Some k)
  from findIndex_Some [OF Some]
  have "k < length (notesRef s)" and "\<not> hit (notesRef s ! k)" and "\<not> missed (notesRef s ! k)"
    by (simp_all add: isTarget_def)
  then show ?thesis using Some by (auto simp: handleInput_def Let_def)
qed

lemma render_notes:
  "notesRef (render canvasReady ctxTime s) = notesRef s
   \<or> (\<exists>now. notesRef (render canvasReady ctxTime s)
         = map (\<lambda>n. if isDue now n then n\<lparr>missed := True\<rparr> else n) (notesRef s))"
  by (auto simp: render_def tick_notes)

lemma exclusive_update:
  assumes "exclusive ns" and "k < length ns" and "\<not> missed (ns ! k)"
  shows "exclusive (ns[k := (ns ! k)\<lparr>hit := True\<rparr>])"
  unfolding exclusive_def
proof
  fix n
  assume "n \<in> set (ns[k := (ns ! k)\<lparr>hit := True\<rparr>])"
  then have "n = (ns ! k)\<lparr>hit := True\<rparr> \<or> n \<in> set ns"
    using set_update_subset_insert [of ns k "(ns ! k)\<lparr>hit := True\<rparr>"] by auto
  then show "\<not> (hit n \<and> missed n)"
    using assms by (auto simp: exclusive_def)
qed

lemma exclusive_sweep:
  "exclusive ns \<Longrightarrow> exclusive (map (\<lambda>n. if isDue now n then n\<lparr>missed := True\<rparr> else n) ns)"
  by (auto simp: exclusive_def isDue_def)

lemma notesRef_playAudio: "notesRef (playAudio offset ctxTime s) = notesRef s"
  by (simp add: playAudio_def)

lemma notesRef_pauseGame: "notesRef (pauseGame ctxTime s) = notesRef s"
  by (simp add: pauseGame_def)

lemma notesRef_resumeGame: "notesRef (resumeGame ctxTime s) = notesRef s"
  by (simp add: resumeGame_def playAudio_def)

lemma notesRef_onended: "notesRef (onended track ctxTime s) = notesRef s"
  by (simp add: onended_def)

lemmas notesRef_control =
  notesRef_playAudio notesRef_pauseGame notesRef_resumeGame notesRef_onended

lemma exclusive_step:
  assumes "exclusive (notesRef s)" and "pristine (notes_track track)"
  shows "exclusive (notesRef (step track s e))"
proof (cases e)
  case Restart
  then show ?thesis using assms(2) by (simp add: restartGame_def pristine_exclusive)
next
  case (Press l c)
  from handleInput_notes [of l c s] show ?thesis
    using assms(1) by (auto simp: Press exclusive_update)
next
  case (Frame b c)
  from render_notes [of b c s] show ?thesis
    using assms(1) by (auto simp: Frame exclusive_sweep)
qed (use assms(1) in \<open>simp_all add: notesRef_control\<close>)

lemma exclusive_run:
  "exclusive (notesRef s) \<Longrightarrow> pristine (notes_track track) \<Longrightarrow>
     exclusive (notesRef (run track evs s))"
  unfolding run_def
  by (induction evs arbitrary: s) (simp_all add: exclusive_step)

lemma step_flags_monotone:
  assumes "e \<noteq> Restart"
  shows "length (notesRef (step track s e)) = length (notesRef s)
       \<and> (\<forall>i<length (notesRef s).
            (hit (notesRef s ! i) \<longrightarrow> hit (notesRef (step track s e) ! i))
            \<and> (missed (notesRef s ! i) \<longrightarrow> missed (notesRef (step track s e) ! i)))"
proof (cases e)
  case Restart
  with assms show ?thesis by simp
next
  case (Press l c)
  from handleInput_notes [of l c s] show ?thesis
    by (auto simp: Press nth_list_update)
next
  case (Frame b c)
  from render_notes [of b c s] show ?thesis
    by (auto simp: Frame)
qed (simp_all add: notesRef_control)

lemma run_flags_monotone:
  "Restart \<notin> set evs \<Longrightarrow>
     length (notesRef (run track evs s)) = length (notesRef s)
     \<and> (\<forall>i<length (notesRef s).
          (hit (notesRef s ! i) \<longrightarrow> hit (notesRef (run track evs s) ! i))
          \<and> (missed (notesRef s ! i) \<longrightarrow> missed (notesRef (run track evs s) ! i)))"
  unfolding run_def
proof (induction evs arbitrary: s)
  case Nil
  then show ?case by simp
next
  case (Cons e evs)
  then have e: "e \<noteq> Restart" and evs: "Restart \<notin> set evs" by auto
  from step_flags_monotone [OF e, of track s] Cons.IH [OF evs, of "step track s e"]
  show ?case by simp
qed

lemma step_hit_only_press:
  assumes "e \<noteq> Restart" and "\<And>l c. e \<noteq> Press l c"
  shows "map hit (notesRef (step track s e)) = map hit (notesRef s)"
proof (cases e)
  case (Frame b c)
  from render_notes [of b c s] show ?thesis
    by (auto simp: Frame)
qed (use assms in \<open>simp_all add: notesRef_control\<close>)

lemma step_missed_only_frame:
  assumes "e \<noteq> Restart" and "\<And>b c. e \<noteq> Frame b c"
  shows "map missed (notesRef (step track s e)) = map missed (notesRef s)"
proof (cases e)
  case (Press l c)
  from handleInput_notes [of l c s] show ?thesis
    by (auto simp: Press map_update list_update_same_conv)
qed (use assms in \<open>simp_all add: notesRef_control\<close>)

text \<open>
  Claim C3: for the track that \<open>analyzeAudio\<close> produces, every note starts with both flags
  false; in every state the engine reaches no note has both \<open>hit\<close> and \<open>missed\<close>; over
  events other than a restart a flag that is true stays true (so it is set at most once);
  \<open>hit\<close> is changed only by a press and \<open>missed\<close> only by a frame; a restart replaces the
  notes by the chart's, with both flags false.
\<close>

theorem note_flags_exclusive_monotone:
  assumes "track = analyzedTrack data sampleRate"
  shows "(\<forall>n\<in>set (notesRef (initialEngine track)). \<not> hit n \<and> \<not> missed n)
       \<and> (\<forall>n\<in>set (notesRef (run track evs (initialEngine track))). \<not> (hit n \<and> missed n))
       \<and> (\<forall>s es i. Restart \<notin> set es \<and> i < length (notesRef s) \<longrightarrow>
            i < length (notesRef (run track es s))
            \<and> (hit (notesRef s ! i) \<longrightarrow> hit (notesRef (run track es s) ! i))
            \<and> (missed (notesRef s ! i) \<longrightarrow> missed (notesRef (run track es s) ! i)))
       \<and> (\<forall>s e. e \<noteq> Restart \<and> (\<forall>l c. e \<noteq> Press l c) \<longrightarrow>
            map hit (notesRef (step track s e)) = map hit (notesRef s))
       \<and> (\<forall>s e. e \<noteq> Restart \<and> (\<forall>b c. e \<noteq> Frame b c) \<longrightarrow>
            map missed (notesRef (step track s e)) = map missed (notesRef s))
       \<and> (\<forall>s. \<forall>n\<in>set (notesRef (step track s Restart)). \<not> hit n \<and> \<not> missed n)"
proof -
  have chart: "pristine (notes_track track)"
    by (simp add: assms analyzedTrack_def pristine_chart)
  have init: "notesRef (initialEngine track) = notes_track track"
    by (simp add: initialEngine_def)
  have a: "\<forall>n\<in>set (notesRef (initialEngine track)). \<not> hit n \<and> \<not> missed n"
    using chart by (simp add: init pristine_def)
  have "exclusive (notesRef (run track evs (initialEngine track)))"
    using chart by (intro exclusive_run) (simp_all add: init pristine_exclusive)
  then have b: "\<forall>n\<in>set (notesRef (run track evs (initialEngine track))). \<not> (hit n \<and> missed n)"
    by (simp add: exclusive_def)
  have c: "\<forall>s es i. Restart \<notin> set es \<and> i < length (notesRef s) \<longrightarrow>
            i < length (notesRef (run track es s))
            \<and> (hit (notesRef s ! i) \<longrightarrow> hit (notesRef (run track es s) ! i))
            \<and> (missed (notesRef s ! i) \<longrightarrow> missed (notesRef (run track es s) ! i))"
    using run_flags_monotone [of _ track] by simp
  have d: "\<forall>s e. e \<noteq> Restart \<and> (\<forall>l c. e \<noteq> Press l c) \<longrightarrow>
            map hit (notesRef (step track s e)) = map hit (notesRef s)"
    using step_hit_only_press by blast
  have e: "\<forall>s e. e \<noteq> Restart \<and> (\<forall>b c. e \<noteq> Frame b c) \<longrightarrow>
            map missed (notesRef (step track s e)) = map missed (notesRef s)"
    using step_missed_only_frame by blast
  have f: "\<forall>s. \<forall>n\<in>set (notesRef (step track s Restart)). \<not> hit n \<and> \<not> missed n"
    using chart by (simp add: restartGame_def pristine_def)
  from a b c d e f show ?thesis by blast
qed

subsection \<open>A chart with two adjacent notes in one lane\<close>

lemma nth_concat_replicate:
  "k < length as \<Longrightarrow> j < n \<Longrightarrow> (concat (map (replicate n) as) @ rest) ! (k * n + j) = as ! k"
proof (induction as arbitrary: k)
  case Nil
  then show ?case by simp
next
  case (Cons a as)
  show ?case
  proof (cases k)
    case 0
    with Cons.prems show ?thesis by (simp add: nth_append)
  next
    case (Suc k')
    with Cons.prems have "k' < length as" by simp
    from Cons.IH [OF this Cons.prems(2)] show ?thesis
      by (simp add: Suc nth_append)
  qed
qed

lemma chunkSum_blocks:
  assumes "k < length as"
  shows "chunkSum (concat (map (replicate SIZE) as) @ rest) (k * SIZE) = real SIZE * (as ! k * as ! k)"
  by (rule chunkSum_const) (simp add: nth_concat_replicate assms)

lemma length_crowdedData: "length crowdedData = 18 * SIZE + 1"
  by (simp add: crowdedData_def rampAmps_def length_concat comp_def sum_list_triv)

lemma rampAmps_Suc: "rampAmps (Suc k) = rampAmps k @ [real k / 17]"
  by (simp add: rampAmps_def)

lemma foldl_rampAmps: "foldl (\<lambda>a b. a + b) 0 (rampAmps k) = real k * (real k - 1) / 34"
  by (induction k) (simp_all add: rampAmps_Suc rampAmps_def field_simps)

lemma crowded_rms:
  assumes "k < 18"
  shows "sqrt (chunkSum crowdedData (k * SIZE) / real SIZE) = real k / 17"
proof -
  have "chunkSum crowdedData (k * SIZE) = real SIZE * (real k / 17 * (real k / 17))"
    unfolding crowdedData_def using assms
    by (subst chunkSum_blocks) (simp_all add: rampAmps_def)
  then have e: "chunkSum crowdedData (k * SIZE) / real SIZE = (real k / 17) * (real k / 17)"
    by (simp add: SIZE_def)
  show ?thesis unfolding e real_sqrt_abs2 by simp
qed

lemma processChunk_accept:
  assumes "sqrt (chunkSum data i / real SIZE) = rms"
    and "energyHistory st \<noteq> []"
    and "foldl (\<lambda>a b. a + b) 0 (energyHistory st) / real (length (energyHistory st)) = avg"
    and "rms > avg * MULTIPLIER" and "rms > MIN_THRESHOLD"
    and "real i / sampleRate = t" and "t - lastNoteTime st > MIN_NOTE_GAP"
    and "length (energyHistory st) < HISTORY_SIZE"
  shows "processChunk data sampleRate i st =
           \<lparr>energyHistory = energyHistory st @ [rms], lastNoteTime = t,
            noteList = noteList st @
              [\<lparr>id_note = ''note-'' @ string_of_nat (length (noteList st)), time = t,
                lane = laneFor (length (noteList st)) t, hit = False, missed = False,
                visible = True\<rparr>]\<rparr>"
  using assms(2,4,5,7,8) unfolding processChunk_def Let_def assms(1) assms(3) assms(6)
  by simp

lemma ramp_step:
  assumes "k < 18"
  shows "processChunk crowdedData 12800 (k * SIZE) (rampState k) = rampState (Suc k)"
proof (cases k)
  case 0
  have rms0: "sqrt (chunkSum crowdedData 0 / real SIZE) = 0"
    using crowded_rms [of 0] by simp
  show ?thesis
    by (simp add: 0 processChunk_def Let_def rampState_def rampAmps_def HISTORY_SIZE_def
        MIN_THRESHOLD_def rms0)
next
  case (Suc j)
  have rms: "sqrt (chunkSum crowdedData (k * SIZE) / real SIZE) = real k / 17"
    by (rule crowded_rms [OF assms])
  have len: "length (rampAmps k) = k" by (simp add: rampAmps_def)
  have hist: "energyHistory (rampState k) = rampAmps k"
    and last: "lastNoteTime (rampState k) = real (k - 1) * (4 / 25)"
    and ns: "noteList (rampState k) = map noteAt [0..<k - 1]"
    by (simp_all add: rampState_def)
  have nonempty: "energyHistory (rampState k) \<noteq> []"
    unfolding hist using Suc by (simp add: rampAmps_def)
  have kpos: "0 < real k" using Suc by simp
  then have avg: "foldl (\<lambda>a b. a + b) 0 (energyHistory (rampState k))
      / real (length (energyHistory (rampState k))) = (real k - 1) / 34"
    unfolding hist len foldl_rampAmps by (simp add: field_simps)
  have onset1: "real k / 17 > (real k - 1) / 34 * MULTIPLIER"
    using Suc by (simp add: MULTIPLIER_def field_simps)
  have onset2: "real k / 17 > MIN_THRESHOLD"
    using Suc by (simp add: MIN_THRESHOLD_def field_simps)
  have t: "real (k * SIZE) / 12800 = real k * (4 / 25)"
    by (simp add: SIZE_def)
  have gap: "real k * (4 / 25) - lastNoteTime (rampState k) > MIN_NOTE_GAP"
    unfolding last using Suc by (simp add: MIN_NOTE_GAP_def field_simps)
  have room: "length (energyHistory (rampState k)) < HISTORY_SIZE"
    using assms by (simp add: hist len HISTORY_SIZE_def)
  have new: "\<lparr>id_note = ''note-'' @ string_of_nat (k - 1), time = real k * (4 / 25),
      lane = laneFor (k - 1) (real k * (4 / 25)), hit = False, missed = False, visible = True\<rparr>
      = noteAt (k - 1)"
    using Suc by (simp add: noteAt_def)
  have upt: "map noteAt [0..<k - 1] @ [noteAt (k - 1)] = map noteAt [0..<k]"
    using Suc by simp
  have "processChunk crowdedData 12800 (k * SIZE) (rampState k) =
      \<lparr>energyHistory = rampAmps k @ [real k / 17], lastNoteTime = real k * (4 / 25),
       noteList = map noteAt [0..<k - 1] @ [noteAt (k - 1)]\<rparr>"
    using processChunk_accept [OF rms nonempty avg onset1 onset2 t gap room]
    by (simp only: hist ns length_map length_upt minus_nat.diff_0 new)
  also have "\<dots> = rampState (Suc k)"
    by (simp only: upt rampAmps_Suc rampState_def diff_Suc_1)
  finally show ?thesis .
qed

lemma ramp_loop:
  "k + d = 18 \<Longrightarrow> analyzeLoop crowdedData 12800 (k * SIZE) (rampState k) = rampState 18"
proof (induction d arbitrary: k)
  case 0
  then show ?case
    by (subst analyzeLoop.simps) (simp add: length_crowdedData SIZE_def)
next
  case (Suc d)
  then have k: "k < 18" and rest: "Suc k + d = 18" by simp_all
  have guard: "SIZE + k * SIZE < length crowdedData"
    using k by (simp add: length_crowdedData SIZE_def)
  have "analyzeLoop crowdedData 12800 (k * SIZE) (rampState k)
      = analyzeLoop crowdedData 12800 (Suc k * SIZE) (rampState (Suc k))"
    using k by (subst analyzeLoop.simps) (simp add: guard ramp_step add.commute)
  then show ?case using Suc.IH [OF rest] by simp
qed

lemma crowded_chart: "analyzeAudio crowdedData 12800 = crowdedChart"
proof -
  have "initialAnalyzerState = rampState 0"
    by (simp add: initialAnalyzerState_def rampState_def rampAmps_def)
  then have "analyzeLoop crowdedData 12800 0 initialAnalyzerState = rampState 18"
    using ramp_loop [of 0 18] by simp
  then show ?thesis
    by (simp add: analyzeAudio_def rampState_def crowdedChart_def)
qed

lemma crowdedChart_eq:
  "crowdedChart =
     [\<lparr>id_note = ''note-0'', time = 4 / 25, lane = 0, hit = False, missed = False, visible = True\<rparr>,
      \<lparr>id_note = ''note-1'', time = 8 / 25, lane = 1, hit = False, missed = False, visible = True\<rparr>,
      \<lparr>id_note = ''note-2'', time = 12 / 25, lane = 2, hit = False, missed = False, visible = True\<rparr>,
      \<lparr>id_note = ''note-3'', time = 16 / 25, lane = 3, hit = False, missed = False, visible = True\<rparr>,
      \<lparr>id_note = ''note-4'', time = 4 / 5, lane = 0, hit = False, missed = False, visible = True\<rparr>,
      \<lparr>id_note = ''note-5'', time = 24 / 25, lane = 1, hit = False, missed = False, visible = True\<rparr>,
      \<lparr>id_note = ''note-6'', time = 28 / 25, lane = 2, hit = False, missed = False, visible = True\<rparr>,
      \<lparr>id_note = ''note-7'', time = 32 / 25, lane = 3, hit = False, missed = False, visible = True\<rparr>,
      \<lparr>id_note = ''note-8'', time = 36 / 25, lane = 2, hit = False, missed = False, visible = True\<rparr>,
      \<lparr>id_note = ''note-9'', time = 8 / 5, lane = 3, hit = False, missed = False, visible = True\<rparr>,
      \<lparr>id_note = ''note-10'', time = 44 / 25, lane = 2, hit = False, missed = False, visible = True\<rparr>,
      \<lparr>id_note = ''note-11'', time = 48 / 25, lane = 3, hit = False, missed = False, visible = True\<rparr>,
      \<lparr>id_note = ''note-12'', time = 52 / 25, lane = 2, hit = False, missed = False, visible = True\<rparr>,
      \<lparr>id_note = ''note-13'', time = 56 / 25, lane = 3, hit = False, missed = False, visible = True\<rparr>,
      \<lparr>id_note = ''note-14'', time = 12 / 5, lane = 2, hit = False, missed = False, visible = True\<rparr>,
      \<lparr>id_note = ''note-15'', time = 64 / 25, lane = 3, hit = False, missed = False, visible = True\<rparr>,
      \<lparr>id_note = ''note-16'', time = 68 / 25, lane = 3, hit = False, missed = False, visible = True\<rparr>]"
  unfolding crowdedChart_def noteAt_def laneFor_def
  by (simp add: upt_rec string_of_nat.simps)

lemma crowdedTrack_notes: "notes_track crowdedTrack = crowdedChart"
  by (simp add: crowdedTrack_def analyzedTrack_def crowded_chart)

lemma crowdedBefore_flags:
  "isPlaying crowdedBefore \<and> \<not> isPaused crowdedBefore \<and> audioContextRef crowdedBefore
   \<and> startTimeRef crowdedBefore = 0"
  by (simp add: crowdedBefore_def run_def render_def tick_alt playAudio_def initialEngine_def)

lemma crowdedBefore_notes:
  "notesRef crowdedBefore = map (\<lambda>n. if isDue (27 / 10) n then n\<lparr>missed := True\<rparr> else n) crowdedChart"
  by (simp add: crowdedBefore_def run_def render_def tick_notes elapsed_def playAudio_def
      initialEngine_def crowdedTrack_notes)

lemma crowdedBefore_notes_eq:
  "notesRef crowdedBefore =
     map (\<lambda>n. n\<lparr>missed := True\<rparr>) (take 15 crowdedChart) @ drop 15 crowdedChart"
  unfolding crowdedBefore_notes crowdedChart_eq
  by (simp add: isDue_def)

subsection \<open>Which note a press judges\<close>

text \<open>
  Claim C8, as the code has it: while playing, a press in lane \<open>l\<close> at transport time \<open>t\<close>
  judges the first note in chart order among the notes of lane \<open>l\<close> with \<open>hit\<close> and
  \<open>missed\<close> false that lie within 0.25 s of \<open>t\<close>; such a note is found whenever one
  exists; exactly that note is marked hit and no other note changes. When the chart is
  ordered by time, it is the earliest such note. It need not be the closest one.
\<close>

theorem press_first_match:
  assumes "isPlaying s" and "\<not> isPaused s" and "audioContextRef s"
    and "t = ctxTime - startTimeRef s"
  shows "((\<exists>n\<in>set (notesRef s). isTarget l t n) \<longrightarrow>
            (\<exists>k. findIndex (isTarget l t) (notesRef s) = Some k))
       \<and> (\<forall>k. findIndex (isTarget l t) (notesRef s) = Some k \<longrightarrow>
            k < length (notesRef s)
            \<and> lane (notesRef s ! k) = l
            \<and> \<not> hit (notesRef s ! k) \<and> \<not> missed (notesRef s ! k)
            \<and> \<bar>time (notesRef s ! k) - t\<bar> \<le> 0.25
            \<and> (\<forall>j<k. \<not> isTarget l t (notesRef s ! j))
            \<and> (sorted (map time (notesRef s)) \<longrightarrow>
                 (\<forall>j<length (notesRef s). isTarget l t (notesRef s ! j) \<longrightarrow>
                    time (notesRef s ! k) \<le> time (notesRef s ! j)))
            \<and> notesRef (handleInput l ctxTime s)
                 = (notesRef s)[k := (notesRef s ! k)\<lparr>hit := True\<rparr>])"
proof -
  have ex: "\<exists>k. findIndex (isTarget l t) (notesRef s) = Some k"
    if "\<exists>n\<in>set (notesRef s). isTarget l t n"
  proof -
    from that have "findIndex (isTarget l t) (notesRef s) \<noteq> None"
      by (simp add: findIndex_None)
    then show ?thesis by blast
  qed
  have sel: "k < length (notesRef s)
      \<and> lane (notesRef s ! k) = l
      \<and> \<not> hit (notesRef s ! k) \<and> \<not> missed (notesRef s ! k)
      \<and> \<bar>time (notesRef s ! k) - t\<bar> \<le> 0.25
      \<and> (\<forall>j<k. \<not> isTarget l t (notesRef s ! j))
      \<and> (sorted (map time (notesRef s)) \<longrightarrow>
           (\<forall>j<length (notesRef s). isTarget l t (notesRef s ! j) \<longrightarrow>
              time (notesRef s ! k) \<le> time (notesRef s ! j)))
      \<and> notesRef (handleInput l ctxTime s) = (notesRef s)[k := (notesRef s ! k)\<lparr>hit := True\<rparr>]"
    if found: "findIndex (isTarget l t) (notesRef s) = Some k" for k
  proof -
    from findIndex_Some [OF found]
    have k: "k < length (notesRef s)" and tk: "isTarget l t (notesRef s ! k)"
      and first: "\<forall>j<k. \<not> isTarget l t (notesRef s ! j)"
      by simp_all
    have props: "lane (notesRef s ! k) = l \<and> \<not> hit (notesRef s ! k) \<and> \<not> missed (notesRef s ! k)
        \<and> \<bar>time (notesRef s ! k) - t\<bar> \<le> 0.25"
      using tk by (simp add: isTarget_def)
    have upd: "notesRef (handleInput l ctxTime s)
        = (notesRef s)[k := (notesRef s ! k)\<lparr>hit := True\<rparr>]"
      using handleInput_judged [OF assms(1-3), of l ctxTime k] found assms(4) by simp
    have earliest: "time (notesRef s ! k) \<le> time (notesRef s ! j)"
      if srt: "sorted (map time (notesRef s))" and j: "j < length (notesRef s)"
        and tj: "isTarget l t (notesRef s ! j)" for j
    proof -
      from first tj have "k \<le> j" by (meson not_le)
      with srt j have "map time (notesRef s) ! k \<le> map time (notesRef s) ! j"
        by (intro sorted_nth_mono) simp_all
      then show ?thesis using j k by simp
    qed
    from k props first upd earliest show ?thesis by blast
  qed
  from ex sel show ?thesis by blast
qed

theorem press_first_match_witness:
  "isPlaying examplePlaying \<and> \<not> isPaused examplePlaying \<and> audioContextRef examplePlaying
   \<and> findIndex (isTarget 0 (1 / 5)) (notesRef examplePlaying) = Some 0
   \<and> sorted (map time (notesRef examplePlaying))
   \<and> hit (notesRef (handleInput 0 (100 + 1 / 5) examplePlaying) ! 0)
   \<and> \<not> hit (notesRef (handleInput 0 (100 + 1 / 5) examplePlaying) ! 1)"
proof -
  have h1: "isPlaying examplePlaying" and h2: "\<not> isPaused examplePlaying"
    and h3: "audioContextRef examplePlaying"
    and h4: "1 / 5 = (100 + 1 / 5) - startTimeRef examplePlaying"
    by (simp_all add: examplePlaying_eq)
  have found: "findIndex (isTarget 0 (1 / 5)) (notesRef examplePlaying) = Some 0"
    by (simp add: examplePlaying_eq exampleChart_def isTarget_def)
  have srt: "sorted (map time (notesRef examplePlaying))"
    by (simp add: examplePlaying_eq exampleChart_def)
  from press_first_match [OF h1 h2 h3 h4, of 0] found
  have "notesRef (handleInput 0 (100 + 1 / 5) examplePlaying)
      = (notesRef examplePlaying)[0 := (notesRef examplePlaying ! 0)\<lparr>hit := True\<rparr>]"
    by blast
  then have "hit (notesRef (handleInput 0 (100 + 1 / 5) examplePlaying) ! 0)
      \<and> \<not> hit (notesRef (handleInput 0 (100 + 1 / 5) examplePlaying) ! 1)"
    by (simp add: examplePlaying_eq exampleChart_def)
  then show ?thesis using h1 h2 h3 found srt by blast
qed

lemma crowdedBefore_target:
  "findIndex (isTarget 3 (271 / 100)) (notesRef crowdedBefore) = Some 15"
  unfolding crowdedBefore_notes_eq crowdedChart_eq
  by (simp add: isTarget_def)

text \<open>
  Claim C8 as stated fails. The chart of \<open>crowdedData\<close> at 12800 Hz has its beats 15 and
  16 both in lane 3, 0.16 s apart. After the start and one frame both are unresolved; a
  press in lane 3 at 2.71 s is 0.15 s from beat 15 and 0.01 s from beat 16. The press marks
  beat 15 (as GOOD) and leaves beat 16, the closer one, untouched.
\<close>

theorem press_closest_counterexample:
  "isPlaying crowdedBefore \<and> \<not> isPaused crowdedBefore \<and> audioContextRef crowdedBefore
   \<and> 271 / 100 - startTimeRef crowdedBefore = 271 / 100
   \<and> lane (notesRef crowdedBefore ! 15) = 3
   \<and> lane (notesRef crowdedBefore ! 16) = 3
   \<and> \<not> hit (notesRef crowdedBefore ! 15) \<and> \<not> missed (notesRef crowdedBefore ! 15)
   \<and> \<not> hit (notesRef crowdedBefore ! 16) \<and> \<not> missed (notesRef crowdedBefore ! 16)
   \<and> \<bar>time (notesRef crowdedBefore ! 15) - 271 / 100\<bar> = 15 / 100
   \<and> \<bar>time (notesRef crowdedBefore ! 16) - 271 / 100\<bar> = 1 / 100
   \<and> hit (notesRef crowdedAfter ! 15)
   \<and> \<not> hit (notesRef crowdedAfter ! 16)
   \<and> lastJudgment crowdedAfter = Some GOOD"
proof -
  have n15: "notesRef crowdedBefore ! 15 =
      \<lparr>id_note = ''note-15'', time = 64 / 25, lane = 3, hit = False, missed = False, visible = True\<rparr>"
    and n16: "notesRef crowdedBefore ! 16 =
      \<lparr>id_note = ''note-16'', time = 68 / 25, lane = 3, hit = False, missed = False, visible = True\<rparr>"
    and len: "length (notesRef crowdedBefore) = 17"
    unfolding crowdedBefore_notes_eq crowdedChart_eq by simp_all
  have after: "crowdedAfter =
      crowdedBefore\<lparr>laneEffectsRef := (laneEffectsRef crowdedBefore)[3 := 1],
        notesRef := (notesRef crowdedBefore)[15 := (notesRef crowdedBefore ! 15)\<lparr>hit := True\<rparr>],
        stats := judgedStats (judgmentOf \<bar>time (notesRef crowdedBefore ! 15) - 271 / 100\<bar>)
          (stats crowdedBefore),
        lastJudgment := Some (judgmentOf \<bar>time (notesRef crowdedBefore ! 15) - 271 / 100\<bar>)\<rparr>"
    using handleInput_judged [of crowdedBefore 3 "271 / 100" 15]
      crowdedBefore_flags crowdedBefore_target
    by (simp add: crowdedAfter_def)
  show ?thesis
    using crowdedBefore_flags
    by (simp add: after n15 n16 len judgmentOf_def)
qed

subsection \<open>The result screen\<close>

lemma silent_step:
  assumes "notes_track track = []" and "notesRef s = []" and "score (stats s) = 0"
  shows "notesRef (step track s e) = [] \<and> score (stats (step track s e)) = 0"
  using assms
  by (cases e)
    (simp_all add: playAudio_def pauseGame_def resumeGame_def restartGame_def onended_def
      handleInput_def render_def tick_def zeroStats_def Let_def)

lemma silent_run:
  "notes_track track = [] \<Longrightarrow> notesRef s = [] \<Longrightarrow> score (stats s) = 0 \<Longrightarrow>
     notesRef (run track evs s) = [] \<and> score (stats (run track evs s)) = 0"
  unfolding run_def
proof (induction evs arbitrary: s)
  case Nil
  then show ?case by simp
next
  case (Cons e evs)
  from silent_step [OF Cons.prems, of e] Cons.prems(1) show ?case
    by (simp add: Cons.IH)
qed

lemma atLeast_js_mono: "atLeast_js acc b \<Longrightarrow> c \<le> b \<Longrightarrow> atLeast_js acc c"
  by (cases acc) simp_all

lemma grade_cases:
  "(grade acc = ''S'' \<longleftrightarrow> atLeast_js acc 95)
   \<and> (grade acc = ''A'' \<longleftrightarrow> atLeast_js acc 90 \<and> \<not> atLeast_js acc 95)
   \<and> (grade acc = ''B'' \<longleftrightarrow> atLeast_js acc 80 \<and> \<not> atLeast_js acc 90)
   \<and> (grade acc = ''C'' \<longleftrightarrow> atLeast_js acc 70 \<and> \<not> atLeast_js acc 80)
   \<and> (grade acc = ''D'' \<longleftrightarrow> atLeast_js acc 60 \<and> \<not> atLeast_js acc 70)
   \<and> (grade acc = ''F'' \<longleftrightarrow> \<not> atLeast_js acc 60)"
  using atLeast_js_mono [of acc 95 90] atLeast_js_mono [of acc 90 80]
    atLeast_js_mono [of acc 80 70] atLeast_js_mono [of acc 70 60]
  by (auto simp: grade_def)

text \<open>
  Claim C9, as the code has it: with at least one note the accuracy is
  \<open>score / (noteCount * 300) * 100\<close> rounded to the nearest integer, with no clamping; with
  no note and score 0 it is the default 0. The grade is S iff the accuracy is at least 95,
  A iff it is at least 90 and below 95, B iff at least 80 and below 90, C iff at least 70
  and below 80, D iff at least 60 and below 70, and F otherwise. A silent track gives an
  empty chart, and with an empty chart the score stays 0 and the grade is F after any
  sequence of events.
\<close>

theorem result_accuracy_grade:
  "(0 < totalNotes \<longrightarrow>
      accuracy sc totalNotes = Num (round (real_of_int sc / (real totalNotes * 300) * 100)))
   \<and> accuracy 0 0 = Num 0
   \<and> (grade acc = ''S'' \<longleftrightarrow> atLeast_js acc 95)
   \<and> (grade acc = ''A'' \<longleftrightarrow> atLeast_js acc 90 \<and> \<not> atLeast_js acc 95)
   \<and> (grade acc = ''B'' \<longleftrightarrow> atLeast_js acc 80 \<and> \<not> atLeast_js acc 90)
   \<and> (grade acc = ''C'' \<longleftrightarrow> atLeast_js acc 70 \<and> \<not> atLeast_js acc 80)
   \<and> (grade acc = ''D'' \<longleftrightarrow> atLeast_js acc 60 \<and> \<not> atLeast_js acc 70)
   \<and> (grade acc = ''F'' \<longleftrightarrow> \<not> atLeast_js acc 60)
   \<and> ((\<forall>x\<in>set data. x = 0) \<longrightarrow> analyzeAudio data sampleRate = [])
   \<and> (analyzeAudio data sampleRate = [] \<longrightarrow>
         (\<forall>evs. score (stats (run (analyzedTrack data sampleRate) evs
                       (initialEngine (analyzedTrack data sampleRate)))) = 0
                \<and> resultGrade (analyzedTrack data sampleRate)
                     (run (analyzedTrack data sampleRate) evs
                       (initialEngine (analyzedTrack data sampleRate))) = ''F''))"
proof -
  have acc1: "0 < totalNotes \<longrightarrow>
      accuracy sc totalNotes = Num (round (real_of_int sc / (real totalNotes * 300) * 100))"
    by (simp add: accuracy_def round_def)
  have acc0: "accuracy 0 0 = Num 0"
    by (simp add: accuracy_def)
  have silent: "(\<forall>x\<in>set data. x = 0) \<longrightarrow> analyzeAudio data sampleRate = []"
    using silent_chart [of data sampleRate] by blast
  have empty: "\<forall>evs. score (stats (run (analyzedTrack data sampleRate) evs
                    (initialEngine (analyzedTrack data sampleRate)))) = 0
             \<and> resultGrade (analyzedTrack data sampleRate)
                  (run (analyzedTrack data sampleRate) evs
                    (initialEngine (analyzedTrack data sampleRate))) = ''F''"
    if chart: "analyzeAudio data sampleRate = []"
  proof -
    let ?track = "analyzedTrack data sampleRate"
    from chart have tr: "notes_track ?track = []"
      by (simp add: analyzedTrack_def)
    have sc0: "score (stats (run ?track evs (initialEngine ?track))) = 0" for evs
      using silent_run [OF tr, of "initialEngine ?track" evs] tr
      by (simp add: initialEngine_def zeroStats_def)
    have "resultGrade ?track (run ?track evs (initialEngine ?track)) = ''F''" for evs
      by (simp add: resultGrade_def sc0 tr accuracy_def grade_def)
    with sc0 show ?thesis by blast
  qed
  from acc1 acc0 grade_cases [of acc] silent empty show ?thesis by blast
qed

lemma silentData_chart: "analyzeAudio silentData 8192 = []"
  by (rule silent_chart) (simp add: silentData_def)

theorem result_accuracy_grade_witness:
  "(0::nat) < 17 \<and> accuracy 5100 17 = Num 100 \<and> accuracy 4590 17 = Num 90
   \<and> grade (accuracy 4590 17) = ''A''
   \<and> set silentData = {0}
   \<and> analyzeAudio silentData 8192 = []
   \<and> score (stats silentPlay) = 0
   \<and> isFinished silentPlay
   \<and> resultGrade (analyzedTrack silentData 8192) silentPlay = ''F''"
proof -
  note main = result_accuracy_grade [of 17 _ _ silentData 8192]
  have zero: "\<forall>x\<in>set silentData. x = 0" and zs: "set silentData = {0}"
    by (simp_all add: silentData_def)
  have a1: "accuracy 5100 17 = Num 100"
    using main [of 5100] by simp
  have a2: "accuracy 4590 17 = Num 90"
    using main [of 4590] by simp
  have g: "grade (accuracy 4590 17) = ''A''"
    using main [of 0 "accuracy 4590 17"] by (simp add: a2)
  from main [of 0 "Num 0"] zero
  have chart: "analyzeAudio silentData 8192 = []"
    and sc: "score (stats silentPlay) = 0"
    and gr: "resultGrade (analyzedTrack silentData 8192) silentPlay = ''F''"
    unfolding silentPlay_def by blast+
  have len: "length silentData = 24576"
    by (simp add: silentData_def)
  have fin: "isFinished silentPlay"
    by (simp add: silentPlay_def run_def analyzedTrack_def silentData_chart initialEngine_def
        playAudio_def handleInput_def render_def tick_def elapsed_def onended_def len)
  from a1 a2 g zs chart sc fin gr show ?thesis by simp
qed

lemma crowdedTrack_duration: "duration crowdedTrack = 36865 / 12800"
  by (simp add: crowdedTrack_def analyzedTrack_def length_crowdedData SIZE_def)

lemma crowdedTrack_eq: "crowdedTrack = \<lparr>notes_track = crowdedChart, duration = 36865 / 12800\<rparr>"
  using crowdedTrack_notes crowdedTrack_duration by (cases crowdedTrack) simp

lemma perfectPlay_stats:
  "stats perfectPlay =
     \<lparr>score = 5170, combo = 17, maxCombo = 17, perfect = 17, good = 0, miss = 0\<rparr>
   \<and> isFinished perfectPlay"
  unfolding perfectPlay_def perfectPresses_def crowdedTrack_eq
  by code_simp

text \<open>
  Claim C9 as stated fails in its clamping: on the 17 notes of the chart of \<open>crowdedData\<close>,
  pressing every note at its exact time gives 17 PERFECT judgments and, with the combo
  bonus, the score 5170 above 17 * 300, so the accuracy at the result screen is 101.
\<close>

theorem accuracy_clamp_counterexample:
  "length (notes_track crowdedTrack) = 17
   \<and> isFinished perfectPlay
   \<and> perfect (stats perfectPlay) = 17
   \<and> score (stats perfectPlay) = 5170
   \<and> accuracy (score (stats perfectPlay)) (length (notes_track crowdedTrack)) = Num 101
   \<and> resultGrade crowdedTrack perfectPlay = ''S''"
  by (simp add: perfectPlay_stats crowdedTrack_notes crowdedChart_eq accuracy_def
      resultGrade_def grade_def)

subsection \<open>An example run for the note flags\<close>

theorem note_flags_exclusive_monotone_witness:
  "\<not> hit (notesRef (initialEngine (analyzedTrack exampleData 8192)) ! 0)
   \<and> \<not> missed (notesRef (initialEngine (analyzedTrack exampleData 8192)) ! 1)
   \<and> hit (notesRef (run (analyzedTrack exampleData 8192) exampleEvents
             (initialEngine (analyzedTrack exampleData 8192))) ! 0)
   \<and> \<not> missed (notesRef (run (analyzedTrack exampleData 8192) exampleEvents
             (initialEngine (analyzedTrack exampleData 8192))) ! 0)
   \<and> missed (notesRef (run (analyzedTrack exampleData 8192) exampleEvents
             (initialEngine (analyzedTrack exampleData 8192))) ! 1)
   \<and> \<not> hit (notesRef (run (analyzedTrack exampleData 8192) exampleEvents
             (initialEngine (analyzedTrack exampleData 8192))) ! 1)
   \<and> Restart \<notin> set [Pause 102, Frame True 103, Press 1 104]
   \<and> hit (notesRef (run (analyzedTrack exampleData 8192) [Pause 102, Frame True 103, Press 1 104]
             (run (analyzedTrack exampleData 8192) exampleEvents
               (initialEngine (analyzedTrack exampleData 8192)))) ! 0)
   \<and> missed (notesRef (run (analyzedTrack exampleData 8192) [Pause 102, Frame True 103, Press 1 104]
             (run (analyzedTrack exampleData 8192) exampleEvents
               (initialEngine (analyzedTrack exampleData 8192)))) ! 1)"
proof -
  let ?track = "analyzedTrack exampleData 8192"
  let ?s = "run ?track exampleEvents (initialEngine ?track)"
  note main = note_flags_exclusive_monotone [OF refl, of exampleData 8192 exampleEvents]
  have init: "notesRef (initialEngine ?track) = exampleChart"
    by (simp add: initialEngine_def analyzedTrack_def example_chart)
  have final: "notesRef ?s = [(exampleChart ! 0)\<lparr>hit := True\<rparr>, (exampleChart ! 1)\<lparr>missed := True\<rparr>]"
    by (simp add: run_def exampleEvents_def initialEngine_def analyzedTrack_def example_chart
        playAudio_def handleInput_def render_def tick_notes elapsed_def isDue_def isTarget_def
        exampleChart_def Let_def)
  have a: "\<not> hit (notesRef (initialEngine ?track) ! 0) \<and> \<not> missed (notesRef (initialEngine ?track) ! 1)"
    using main by (simp add: init exampleChart_def)
  have b: "hit (notesRef ?s ! 0) \<and> \<not> missed (notesRef ?s ! 0)
      \<and> missed (notesRef ?s ! 1) \<and> \<not> hit (notesRef ?s ! 1)"
    by (simp add: final exampleChart_def)
  have r: "Restart \<notin> set [Pause 102, Frame True 103, Press 1 104]" by simp
  from main have mono: "\<And>s es i. Restart \<notin> set es \<and> i < length (notesRef s) \<Longrightarrow>
      (hit (notesRef s ! i) \<longrightarrow> hit (notesRef (run ?track es s) ! i))
      \<and> (missed (notesRef s ! i) \<longrightarrow> missed (notesRef (run ?track es s) ! i))"
    by blast
  have c: "hit (notesRef (run ?track [Pause 102, Frame True 103, Press 1 104] ?s) ! 0)"
    using mono [of "[Pause 102, Frame True 103, Press 1 104]" 0 ?s] r b by (simp add: final)
  have d: "missed (notesRef (run ?track [Pause 102, Frame True 103, Press 1 104] ?s) ! 1)"
    using mono [of "[Pause 102, Frame True 103, Press 1 104]" 1 ?s] r b by (simp add: final)
  from a b r c d show ?thesis by blast
qed

end
